theory Spec2Isabelle
  imports Main
begin

section \<open>The jscrambler command-line client: configuration resolution, file selection, dispatch\<close>

text \<open>
  A shallow embedding of \<^verbatim>\<open>packages/jscrambler-cli/src/bin/jscrambler.js\<close>.
  The script runs top to bottom once per invocation; every \<^verbatim>\<open>process.exit(1)\<close>
  is a value of the type \<open>error\<close>, returned on the left of a sum.

  What the script takes from outside is a parameter of the model:
  \<^item> the object \<^verbatim>\<open>commander\<close> holds after \<^verbatim>\<open>.parse(process.argv)\<close> (a record);
  \<^item> the module \<^verbatim>\<open>require\<close> loads for \<^verbatim>\<open>--config\<close>, and the default object
    \<^verbatim>\<open>_config\<close> of \<^verbatim>\<open>../config\<close> (objects);
  \<^item> the libraries \<^verbatim>\<open>filesize-parser\<close> and \<^verbatim>\<open>glob\<close> and the function
    \<^verbatim>\<open>mergeAndParseParams\<close> of \<^verbatim>\<open>../cli\<close> (functions).
\<close>

subsection \<open>JavaScript values\<close>

text \<open>
  Numbers are the integers (\<open>Num i\<close> stands for the double of that value), \<open>NaN\<close> and the
  two infinities; fractions are outside the model. A string is the list of its bytes in
  UTF-8. An object literal is an association list; the first entry of a key is the one
  read.
\<close>

datatype jsval =
    Undefined
  | Null
  | Bool bool
  | Num int
  | NaN
  | Infinity
  | NegInfinity
  | Str string
  | Arr "jsval list"
  | Obj "(string \<times> jsval) list"

text \<open>An object under mutation: a property that was never assigned reads \<open>Undefined\<close>.\<close>

type_synonym object = "string \<Rightarrow> jsval"

definition empty_object :: object where
  "empty_object = (\<lambda>k. Undefined)"

text \<open>ToBoolean.\<close>

fun truthy :: "jsval \<Rightarrow> bool" where
  "truthy Undefined = False"
| "truthy Null = False"
| "truthy (Bool b) = b"
| "truthy (Num i) = (i \<noteq> 0)"
| "truthy NaN = False"
| "truthy Infinity = True"
| "truthy NegInfinity = True"
| "truthy (Str s) = (s \<noteq> [])"
| "truthy (Arr xs) = True"
| "truthy (Obj kv) = True"

text \<open>The operators \<^verbatim>\<open>a || b\<close> and \<^verbatim>\<open>a && b\<close>.\<close>

definition or_js :: "jsval \<Rightarrow> jsval \<Rightarrow> jsval" where
  "or_js a b = (if truthy a then a else b)"

definition and_js :: "jsval \<Rightarrow> jsval \<Rightarrow> jsval" where
  "and_js a b = (if truthy a then b else a)"

text \<open>Reading a property of a value that is neither \<^verbatim>\<open>null\<close> nor \<^verbatim>\<open>undefined\<close>.\<close>

fun get_prop :: "jsval \<Rightarrow> string \<Rightarrow> jsval" where
  "get_prop (Obj kv) k = (case map_of kv k of Some v \<Rightarrow> v | None \<Rightarrow> Undefined)"
| "get_prop v k = Undefined"

text \<open>
  The Number value of a non-negative integer: the nearest number with a significand of
  53 bits, of two equally near ones the one with the even significand; infinity (\<open>None\<close>)
  when that is \<open>2 ^ 1024\<close> or more.
\<close>

fun bits :: "nat \<Rightarrow> nat" where
  "bits n = (if n = 0 then 0 else Suc (bits (n div 2)))"

declare bits.simps [simp del]

definition round_double :: "nat \<Rightarrow> nat option" where
  "round_double n =
    (if bits n \<le> 53 then Some n
     else let ulp = 2 ^ (bits n - 53);
              q = n div ulp;
              r = n mod ulp;
              q' = (if 2 * r > ulp \<or> (2 * r = ulp \<and> odd q) then q + 1 else q)
          in if q' * ulp \<ge> 2 ^ 1024 then None else Some (q' * ulp))"

definition number :: "bool \<Rightarrow> nat \<Rightarrow> jsval" where
  "number neg n =
    (case round_double n of
       None \<Rightarrow> (if neg then NegInfinity else Infinity)
     | Some v \<Rightarrow> Num (if neg then - int v else int v))"

text \<open>
  Number::toString of a non-negative integer \<open>n\<close>. JavaScript prints the decimal numeral of
  the fewest significant digits whose Number value is \<open>n\<close>, of several the one closest to
  \<open>n\<close>, and of two equally close ones the one with the even last digit: \<open>candidates n k\<close>
  are the numerals of \<open>k\<close> significant digits next to \<open>n\<close> that have the value \<open>n\<close>, the
  one to print first. Up to 21 digits the numeral is printed in full, a longer one with
  an exponent. Below \<open>2 ^ 53\<close> the numeral is \<open>n\<close> itself.
\<close>

fun show_nat :: "nat \<Rightarrow> string" where
  "show_nat n = (if n < 10 then [''0123456789'' ! n]
     else show_nat (n div 10) @ [''0123456789'' ! (n mod 10)])"

definition candidates :: "nat \<Rightarrow> nat \<Rightarrow> nat list" where
  "candidates n k =
    (let p = 10 ^ (length (show_nat n) - k);
         lo = n div p * p;
         hi = lo + p;
         lo_first = (n - lo < hi - n \<or> (n - lo = hi - n \<and> even (n div p)))
     in filter (\<lambda>c. round_double c = Some n) (if lo_first then [lo, hi] else [hi, lo]))"

definition shortest :: "nat \<Rightarrow> nat" where
  "shortest n =
    (case concat (map (candidates n) [1 ..< Suc (length (show_nat n))]) of
       [] \<Rightarrow> n
     | c # cs \<Rightarrow> c)"

definition number_string :: "nat \<Rightarrow> string" where
  "number_string n =
    (let ds = show_nat (shortest n);
         significant = rev (dropWhile (\<lambda>d. d = CHR ''0'') (rev ds))
     in if length ds \<le> 21 then ds
        else take 1 significant @
             (if length significant > 1 then CHR ''.'' # drop 1 significant else []) @
             ''e+'' @ show_nat (length ds - 1))"

text \<open>ToString, as \<^verbatim>\<open>parseInt\<close>, \<^verbatim>\<open>RegExp.prototype.test\<close> and template literals apply it.\<close>

fun join :: "string list \<Rightarrow> string" where
  "join [] = []"
| "join [s] = s"
| "join (s # t # ss) = s @ CHR '','' # join (t # ss)"

fun toString :: "jsval \<Rightarrow> string" where
  "toString Undefined = ''undefined''"
| "toString Null = ''null''"
| "toString (Bool b) = (if b then ''true'' else ''false'')"
| "toString (Num i) =
     (if i < 0 then CHR ''-'' # number_string (nat (- i)) else number_string (nat i))"
| "toString NaN = ''NaN''"
| "toString Infinity = ''Infinity''"
| "toString NegInfinity = ''-Infinity''"
| "toString (Str s) = s"
| "toString (Arr xs) =
     join (map (\<lambda>x. if x = Undefined \<or> x = Null then [] else toString x) xs)"
| "toString (Obj kv) = ''[object Object]''"

subsection \<open>Library functions the script calls\<close>

text \<open>
  White space as \<^verbatim>\<open>parseInt\<close> and ToNumber strip it: the characters TAB, LF, VT, FF, CR,
  SP, U+00A0, U+1680, U+2000 to U+200A, U+2028, U+2029, U+202F, U+205F, U+3000 and
  U+FEFF, each as its UTF-8 bytes.
\<close>

definition white_space :: "string list" where
  "white_space =
    [[CHR 0x09], [CHR 0x0A], [CHR 0x0B], [CHR 0x0C], [CHR 0x0D], [CHR 0x20],
     [CHR 0xC2, CHR 0xA0],
     [CHR 0xE1, CHR 0x9A, CHR 0x80],
     [CHR 0xE2, CHR 0x80, CHR 0x80], [CHR 0xE2, CHR 0x80, CHR 0x81],
     [CHR 0xE2, CHR 0x80, CHR 0x82], [CHR 0xE2, CHR 0x80, CHR 0x83],
     [CHR 0xE2, CHR 0x80, CHR 0x84], [CHR 0xE2, CHR 0x80, CHR 0x85],
     [CHR 0xE2, CHR 0x80, CHR 0x86], [CHR 0xE2, CHR 0x80, CHR 0x87],
     [CHR 0xE2, CHR 0x80, CHR 0x88], [CHR 0xE2, CHR 0x80, CHR 0x89],
     [CHR 0xE2, CHR 0x80, CHR 0x8A],
     [CHR 0xE2, CHR 0x80, CHR 0xA8], [CHR 0xE2, CHR 0x80, CHR 0xA9],
     [CHR 0xE2, CHR 0x80, CHR 0xAF],
     [CHR 0xE2, CHR 0x81, CHR 0x9F],
     [CHR 0xE3, CHR 0x80, CHR 0x80],
     [CHR 0xEF, CHR 0xBB, CHR 0xBF]]"

text \<open>The length of the first of the encodings \<open>ws\<close> that \<open>s\<close> begins with, 0 when it
  begins with none.\<close>

fun space_prefix :: "string list \<Rightarrow> string \<Rightarrow> nat" where
  "space_prefix [] s = 0"
| "space_prefix (w # ws) s =
    (if w \<noteq> [] \<and> take (length w) s = w then length w else space_prefix ws s)"

function strip :: "string list \<Rightarrow> string \<Rightarrow> string" where
  "strip ws s = (if space_prefix ws s = 0 then s else strip ws (drop (space_prefix ws s) s))"
  by pat_completeness auto
termination
proof (relation "measure (\<lambda>(ws, s). length s)")
  show "wf (measure (\<lambda>(ws, s). length s))" by simp
next
  fix ws :: "string list" and s :: string
  assume pos: "space_prefix ws s \<noteq> 0"
  then have "s \<noteq> []" by (induction ws) (auto split: if_splits)
  with pos show "((ws, drop (space_prefix ws s) s), (ws, s)) \<in> measure (\<lambda>(ws, s). length s)"
    by simp
qed

declare strip.simps [simp del]

definition trim_start :: "string \<Rightarrow> string" where
  "trim_start s = strip white_space s"

definition trim :: "string \<Rightarrow> string" where
  "trim s = rev (strip (map rev white_space) (rev (trim_start s)))"

fun index_of :: "char \<Rightarrow> string \<Rightarrow> nat option" where
  "index_of c [] = None"
| "index_of c (d # ds) = (if c = d then Some 0 else map_option Suc (index_of c ds))"

definition digit_value :: "char \<Rightarrow> nat option" where
  "digit_value c = (case index_of c ''0123456789abcdef'' of
       Some n \<Rightarrow> Some n
     | None \<Rightarrow> map_option (\<lambda>n. n + 10) (index_of c ''ABCDEF''))"

definition in_radix :: "nat \<Rightarrow> char \<Rightarrow> bool" where
  "in_radix r c = (case digit_value c of Some n \<Rightarrow> n < r | None \<Rightarrow> False)"

definition digits_value :: "nat \<Rightarrow> string \<Rightarrow> nat" where
  "digits_value r ds = foldl (\<lambda>a c. a * r + the (digit_value c)) 0 ds"

text \<open>
  \<^verbatim>\<open>parseInt(v)\<close> with no radix: ToString, leading white space dropped, an optional
  sign, a \<^verbatim>\<open>0x\<close> prefix selecting base 16, then the longest prefix of digits; \<open>NaN\<close> when
  that prefix is empty, otherwise the Number value of the integer the digits denote.
\<close>

definition parseInt :: "jsval \<Rightarrow> jsval" where
  "parseInt v =
    (let s = trim_start (toString v);
         neg = (take 1 s = ''-'');
         s1 = (if take 1 s = ''-'' \<or> take 1 s = ''+'' then drop 1 s else s);
         hex = (take 2 s1 = ''0x'' \<or> take 2 s1 = ''0X'');
         r = (if hex then 16 else 10);
         s2 = (if hex then drop 2 s1 else s1);
         ds = takeWhile (in_radix r) s2
     in if ds = [] then NaN else number neg (digits_value r ds))"

text \<open>
  ToNumber, as the comparisons \<^verbatim>\<open>i < l\<close> and \<^verbatim>\<open>globSrc.length > 1\<close> apply it to a length that
  is not a number. Of the numeric strings it reads the integers: decimal digits with an
  optional sign, the prefixes \<^verbatim>\<open>0x\<close>, \<^verbatim>\<open>0o\<close> and \<^verbatim>\<open>0b\<close>, \<^verbatim>\<open>Infinity\<close>, and the empty string
  (zero). A literal with a fraction or an exponent has no value among the numbers of
  this model and reads as \<open>NaN\<close>.
\<close>

definition radix_literal :: "nat \<Rightarrow> string \<Rightarrow> jsval" where
  "radix_literal r ds =
    (if ds \<noteq> [] \<and> list_all (in_radix r) ds then number False (digits_value r ds) else NaN)"

definition stringToNumber :: "string \<Rightarrow> jsval" where
  "stringToNumber s =
    (let t = trim s;
         neg = (take 1 t = ''-'');
         u = (if take 1 t = ''-'' \<or> take 1 t = ''+'' then drop 1 t else t)
     in if t = [] then Num 0
        else if u = ''Infinity'' then (if neg then NegInfinity else Infinity)
        else if take 2 t = ''0x'' \<or> take 2 t = ''0X'' then radix_literal 16 (drop 2 t)
        else if take 2 t = ''0o'' \<or> take 2 t = ''0O'' then radix_literal 8 (drop 2 t)
        else if take 2 t = ''0b'' \<or> take 2 t = ''0B'' then radix_literal 2 (drop 2 t)
        else if u \<noteq> [] \<and> list_all (in_radix 10) u then number neg (digits_value 10 u)
        else NaN)"

fun toNumber :: "jsval \<Rightarrow> jsval" where
  "toNumber Undefined = NaN"
| "toNumber Null = Num 0"
| "toNumber (Bool b) = Num (if b then 1 else 0)"
| "toNumber (Num i) = Num i"
| "toNumber NaN = NaN"
| "toNumber Infinity = Infinity"
| "toNumber NegInfinity = NegInfinity"
| "toNumber (Str s) = stringToNumber s"
| "toNumber (Arr xs) = stringToNumber (toString (Arr xs))"
| "toNumber (Obj kv) = NaN"

text \<open>
  \<^verbatim>\<open>path.extname\<close> of Node (POSIX paths): the extension of the last path component,
  trailing slashes ignored; empty when that component has no dot, starts with its only
  dot, or is \<^verbatim>\<open>..\<close>.
\<close>

definition last_component :: "string \<Rightarrow> string" where
  "last_component p = rev (takeWhile (\<lambda>c. c \<noteq> CHR ''/'') (dropWhile (\<lambda>c. c = CHR ''/'') (rev p)))"

definition extname :: "string \<Rightarrow> string" where
  "extname p =
    (let c = last_component p;
         ext = rev (takeWhile (\<lambda>x. x \<noteq> CHR ''.'') (rev c));
         pre = rev (drop 1 (dropWhile (\<lambda>x. x \<noteq> CHR ''.'') (rev c)))
     in if CHR ''.'' \<notin> set c then []
        else if pre = [] then []
        else if pre = ''.'' \<and> ext = [] then []
        else CHR ''.'' # ext)"

text \<open>
  \<^verbatim>\<open>defaults(object, source)\<close> of lodash: every property of the destination that
  resolves to \<^verbatim>\<open>undefined\<close> is assigned from the source; the others are kept.
\<close>

definition defaults :: "object \<Rightarrow> object \<Rightarrow> object" where
  "defaults obj src = (\<lambda>k. if obj k = Undefined then src k else obj k)"

subsection \<open>Fatal errors\<close>

text \<open>One constructor per \<^verbatim>\<open>console.error\<close> followed by \<^verbatim>\<open>process.exit(1)\<close>; \<open>TypeError\<close> is
  the exception \<^verbatim>\<open>path.extname\<close> throws for a pattern that is not a string, which nothing
  catches.\<close>

datatype error =
    BoolRequired string
  | ThresholdFormat
  | VersionFormat
  | ZipWithOthers
  | PatternNoMatch string
  | NoFilesMatched
  | TypeError

definition quoted :: "string \<Rightarrow> string" where
  "quoted s = CHR 0x22 # s @ [CHR 0x22]"

fun message :: "error \<Rightarrow> string" where
  "message (BoolRequired option) = ''*'' @ option @ ''* requires a <bool> value.''"
| "message ThresholdFormat =
     ''*code-hardening-threshold* requires a valid <threshold> value. Format: {number}{unit='' @
     quoted ''b,kb,mb'' @ ''}. Example: --code-hardening-threshold 200kb''"
| "message VersionFormat =
     ''The Jscrambler version must be in the form of $major.$minor or the words stable and latest. (e.g. 5.2, stable, latest)''"
| "message ZipWithOthers =
     ''Please provide either a zip file containing all your source files or use the minimatch syntax''"
| "message (PatternNoMatch p) = ''Pattern '' @ quoted p @ '' doesn't match any files.''"
| "message NoFilesMatched = ''No files matched.''"
| "message TypeError = ''TypeError''"

fun exit_code :: "error \<Rightarrow> nat" where
  "exit_code (BoolRequired option) = 1"
| "exit_code ThresholdFormat = 1"
| "exit_code VersionFormat = 1"
| "exit_code ZipWithOthers = 1"
| "exit_code (PatternNoMatch p) = 1"
| "exit_code NoFilesMatched = 1"
| "exit_code TypeError = 1"

subsection \<open>Value validators (lines 14 to 33)\<close>

definition to_lower :: "char \<Rightarrow> char" where
  "to_lower c = (case index_of c ''ABCDEFGHIJKLMNOPQRSTUVWXYZ'' of
       Some n \<Rightarrow> ''abcdefghijklmnopqrstuvwxyz'' ! n
     | None \<Rightarrow> c)"

text \<open>\<^verbatim>\<open>/^(true|false)$/i.test(val)\<close>, then \<^verbatim>\<open>val.toLowerCase()\<close>.\<close>

definition validateBool :: "string \<Rightarrow> string \<Rightarrow> error + string" where
  "validateBool option val =
    (if map to_lower val = ''true'' \<or> map to_lower val = ''false''
     then Inr (map to_lower val)
     else Inl (BoolRequired option))"

text \<open>The parameter \<open>filesizeParser\<close> is the library function; \<open>None\<close> is its exception.\<close>

definition validateCodeHardeningThreshold ::
    "(jsval \<Rightarrow> jsval option) \<Rightarrow> jsval \<Rightarrow> error + jsval" where
  "validateCodeHardeningThreshold filesizeParser val =
    (case filesizeParser val of
       None \<Rightarrow> Inl ThresholdFormat
     | Some inBytes \<Rightarrow> Inr inBytes)"

subsection \<open>The parsed command line\<close>

text \<open>
  The properties of \<^verbatim>\<open>commander\<close> after parsing: \<open>Undefined\<close> for an option that was not
  given, otherwise the string given or, for an option declared with a validator, what
  the validator returned. \<open>debugMode\<close> takes no argument and is \<open>Bool True\<close> when given.
\<close>

record commander =
  accessKey :: jsval
  config :: jsval
  host :: jsval
  applicationId :: jsval
  outputDir :: jsval
  port :: jsval
  protocol :: jsval
  cafile :: jsval
  cwd :: jsval
  secretKey :: jsval
  sourceMaps :: jsval
  randomizationSeed :: jsval
  codeHardeningThreshold :: jsval
  recommendedOrder :: jsval
  werror :: jsval
  tolerateMinification :: jsval
  useProfilingData :: jsval
  jscramblerVersion :: jsval
  debugMode :: jsval
  args :: "string list"

definition no_options :: commander where
  "no_options = \<lparr> accessKey = Undefined, config = Undefined, host = Undefined,
     applicationId = Undefined, outputDir = Undefined, port = Undefined,
     protocol = Undefined, cafile = Undefined, cwd = Undefined, secretKey = Undefined,
     sourceMaps = Undefined, randomizationSeed = Undefined,
     codeHardeningThreshold = Undefined, recommendedOrder = Undefined,
     werror = Undefined, tolerateMinification = Undefined, useProfilingData = Undefined,
     jscramblerVersion = Undefined, debugMode = Undefined, args = [] \<rparr>"

subsection \<open>Config merger (lines 79 to 134)\<close>

text \<open>\<^verbatim>\<open>/^(?:\d+\.\d+(?:-f)?|stable|latest)$/.test(v)\<close>: the test applies ToString first.\<close>

definition is_digit :: "char \<Rightarrow> bool" where
  "is_digit c = (c \<in> set ''0123456789'')"

definition version_match :: "string \<Rightarrow> bool" where
  "version_match s =
    (s = ''stable'' \<or> s = ''latest'' \<or>
     (let major = takeWhile is_digit s; r = dropWhile is_digit s
      in major \<noteq> [] \<and> take 1 r = ''.'' \<and>
         (let minor = takeWhile is_digit (drop 1 r); r' = dropWhile is_digit (drop 1 r)
          in minor \<noteq> [] \<and> (r' = [] \<or> r' = ''-f''))))"

definition version_test :: "jsval \<Rightarrow> bool" where
  "version_test v = version_match (toString v)"

text \<open>Lines 82 to 88: the object the merge starts from. \<open>required\<close> is the module
  \<^verbatim>\<open>require(path.resolve(commander.config, '.'))\<close> returns.\<close>

definition loadConfig :: "commander \<Rightarrow> object \<Rightarrow> object" where
  "loadConfig cmd required = (if truthy (config cmd) then required else empty_object)"

text \<open>The statement \<^verbatim>\<open>config.k = rhs\<close>, where \<open>rhs\<close> reads the object as it is before
  the assignment.\<close>

definition assign :: "string \<Rightarrow> (object \<Rightarrow> jsval) \<Rightarrow> object \<Rightarrow> object" where
  "assign k rhs cfg = cfg(k := rhs cfg)"

text \<open>Lines 90 to 113, one assignment after the other.\<close>

definition mergeFields :: "commander \<Rightarrow> object \<Rightarrow> object" where
  "mergeFields cmd cfg0 =
    fold (\<lambda>statement cfg. statement cfg)
     [assign ''accessKey'' (\<lambda>cfg. or_js (accessKey cmd)
        (if truthy (cfg ''keys'') then get_prop (cfg ''keys'') ''accessKey'' else Undefined)),
      assign ''secretKey'' (\<lambda>cfg. or_js (secretKey cmd)
        (if truthy (cfg ''keys'') then get_prop (cfg ''keys'') ''secretKey'' else Undefined)),
      assign ''host'' (\<lambda>cfg. or_js (host cmd) (cfg ''host'')),
      assign ''port'' (\<lambda>cfg. or_js (port cmd) (cfg ''port'')),
      assign ''port'' (\<lambda>cfg. and_js (cfg ''port'') (parseInt (cfg ''port''))),
      assign ''protocol'' (\<lambda>cfg. or_js (protocol cmd) (cfg ''protocol'')),
      assign ''cafile'' (\<lambda>cfg. or_js (cafile cmd) (cfg ''cafile'')),
      assign ''filesDest'' (\<lambda>cfg. or_js (outputDir cmd) (cfg ''filesDest'')),
      assign ''applicationId'' (\<lambda>cfg. or_js (applicationId cmd) (cfg ''applicationId'')),
      assign ''randomizationSeed'' (\<lambda>cfg.
        or_js (randomizationSeed cmd) (cfg ''randomizationSeed'')),
      assign ''cwd'' (\<lambda>cfg. or_js (cwd cmd) (cfg ''cwd'')),
      assign ''useRecommendedOrder'' (\<lambda>cfg.
        if truthy (recommendedOrder cmd) then Bool (recommendedOrder cmd \<noteq> Str ''false'')
        else cfg ''useRecommendedOrder''),
      assign ''tolerateMinification'' (\<lambda>cfg.
        if truthy (tolerateMinification cmd)
        then Bool (tolerateMinification cmd \<noteq> Str ''false'')
        else cfg ''tolerateMinification''),
      assign ''werror'' (\<lambda>cfg.
        if truthy (werror cmd) then Bool (werror cmd \<noteq> Str ''false'') else cfg ''werror''),
      assign ''jscramblerVersion'' (\<lambda>cfg.
        or_js (jscramblerVersion cmd) (cfg ''jscramblerVersion'')),
      assign ''debugMode'' (\<lambda>cfg. or_js (debugMode cmd) (cfg ''debugMode''))]
     cfg0"

text \<open>Lines 114 to 121: the value assigned to \<^verbatim>\<open>config.codeHardeningThreshold\<close>, or the
  exit of the validator.\<close>

definition mergeCodeHardeningThreshold ::
    "(jsval \<Rightarrow> jsval option) \<Rightarrow> commander \<Rightarrow> object \<Rightarrow> error + jsval" where
  "mergeCodeHardeningThreshold filesizeParser cmd cfg =
    (if codeHardeningThreshold cmd = Undefined
     then (if truthy (cfg ''codeHardeningThreshold'')
           then validateCodeHardeningThreshold filesizeParser (cfg ''codeHardeningThreshold'')
           else Inr Undefined)
     else Inr (codeHardeningThreshold cmd))"

text \<open>Lines 123 to 125.\<close>

definition mergeUseProfilingData :: "commander \<Rightarrow> object \<Rightarrow> object" where
  "mergeUseProfilingData cmd cfg =
    (if truthy (useProfilingData cmd)
     then cfg(''useProfilingData'' := Bool (useProfilingData cmd \<noteq> Str ''false''))
     else cfg)"

text \<open>Lines 127 to 132.\<close>

definition checkJscramblerVersion :: "object \<Rightarrow> error + object" where
  "checkJscramblerVersion cfg =
    (if truthy (cfg ''jscramblerVersion'') \<and> \<not> version_test (cfg ''jscramblerVersion'')
     then Inl VersionFormat
     else Inr cfg)"

text \<open>Lines 90 to 132 in sequence.\<close>

definition mergeConfig ::
    "(jsval \<Rightarrow> jsval option) \<Rightarrow> commander \<Rightarrow> object \<Rightarrow> error + object" where
  "mergeConfig filesizeParser cmd cfg0 =
    (let cfg = mergeFields cmd cfg0
     in case mergeCodeHardeningThreshold filesizeParser cmd cfg of
          Inl e \<Rightarrow> Inl e
        | Inr threshold \<Rightarrow>
            checkJscramblerVersion
              (mergeUseProfilingData cmd (cfg(''codeHardeningThreshold'' := threshold))))"

text \<open>Lines 82 to 134: load, merge, then \<^verbatim>\<open>config = defaults(config, _config)\<close>.\<close>

definition resolveConfig ::
    "(jsval \<Rightarrow> jsval option) \<Rightarrow> commander \<Rightarrow> object \<Rightarrow> object \<Rightarrow> error + object" where
  "resolveConfig filesizeParser cmd required dflt =
    (case mergeConfig filesizeParser cmd (loadConfig cmd required) of
       Inl e \<Rightarrow> Inl e
     | Inr cfg \<Rightarrow> Inr (defaults cfg dflt))"

subsection \<open>File resolver (lines 136 to 188)\<close>

text \<open>
  The UTF-16 code units of a string, which \<^verbatim>\<open>length\<close> counts and an index selects, each
  as a string of its own. A character of one, two or three bytes is one code unit; a
  character of four bytes is a pair of surrogates, each written as the three bytes that
  the encoding of its code gives.
\<close>

definition sequence_length :: "char \<Rightarrow> nat" where
  "sequence_length c =
    (let b = (of_char c :: nat)
     in if b < 0xC0 then 1 else if b < 0xE0 then 2 else if b < 0xF0 then 3 else 4)"

definition three_bytes :: "nat \<Rightarrow> string" where
  "three_bytes u =
    [char_of (0xE0 + u div 4096), char_of (0x80 + u div 64 mod 64), char_of (0x80 + u mod 64)]"

definition surrogates :: "string \<Rightarrow> string list" where
  "surrogates cs =
    (let b = map of_char cs :: nat list;
         code = (b ! 0 mod 8) * 262144 + (b ! 1 mod 64) * 4096 + (b ! 2 mod 64) * 64 +
                b ! 3 mod 64;
         v = code - 0x10000
     in [three_bytes (0xD800 + v div 1024), three_bytes (0xDC00 + v mod 1024)])"

fun code_units :: "string \<Rightarrow> string list" where
  "code_units [] = []"
| "code_units (c # cs) =
    (let n = sequence_length c;
         u = c # take (n - 1) cs
     in (if length u = 4 then surrogates u else [u]) @ code_units (drop (n - 1) cs))"

text \<open>
  \<^verbatim>\<open>globSrc.length\<close> for a value that is neither \<^verbatim>\<open>null\<close> nor \<^verbatim>\<open>undefined\<close>: the length of
  an array or of a string, the property \<open>length\<close> of an object, \<open>undefined\<close> for the
  rest.
\<close>

fun js_length :: "jsval \<Rightarrow> jsval" where
  "js_length (Arr xs) = Num (int (length xs))"
| "js_length (Str s) = Num (int (length (code_units s)))"
| "js_length (Obj kv) = get_prop (Obj kv) ''length''"
| "js_length v = Undefined"

text \<open>
  The number of indexes \<open>i = 0, 1, ...\<close> with \<^verbatim>\<open>i < l\<close>. With an infinite \<open>l\<close> the loop
  runs until an element is not a string, which ends it; an object of \<open>n\<close> properties
  has no string at one of the indexes \<open>0\<close> to \<open>n\<close>, so \<open>bound = n + 1\<close> indexes are
  enough.
\<close>

definition index_count :: "jsval \<Rightarrow> nat \<Rightarrow> nat" where
  "index_count l bound =
    (case toNumber l of Num n \<Rightarrow> nat n | Infinity \<Rightarrow> bound | _ \<Rightarrow> 0)"

text \<open>The elements \<^verbatim>\<open>globSrc[0]\<close>, \<^verbatim>\<open>globSrc[1]\<close>, ... the loop visits: those of an array, the
  code units of a string, the properties \<open>0\<close>, \<open>1\<close>, ... of an object.\<close>

fun js_elements :: "jsval \<Rightarrow> jsval list" where
  "js_elements (Arr xs) = xs"
| "js_elements (Str s) = map Str (code_units s)"
| "js_elements (Obj kv) =
    map (\<lambda>i. get_prop (Obj kv) (show_nat i))
      [0 ..< index_count (get_prop (Obj kv) ''length'') (Suc (length kv))]"
| "js_elements v = []"

text \<open>Lines 136 to 140.\<close>

definition globSrc :: "commander \<Rightarrow> object \<Rightarrow> jsval" where
  "globSrc cmd cfg =
    (if length (args cmd) > 0 then Arr (map Str (args cmd)) else cfg ''filesSrc'')"

text \<open>What \<^verbatim>\<open>console.log\<close> prints for one pattern when \<^verbatim>\<open>DEBUG\<close> is set (lines 166 to 177).\<close>

definition debugLines :: "bool \<Rightarrow> string \<Rightarrow> string list \<Rightarrow> string list" where
  "debugLines debug p tmpGlob =
    (if debug
     then (if length tmpGlob = 0
           then [''Pattern '' @ quoted p @ '' doesn't match any files. Will be ignored.'']
           else (''Pattern '' @ quoted p @ '' matched the following files:'') #
                map (\<lambda>file. ''    '' @ file) tmpGlob)
     else [])"

text \<open>
  The loop of lines 145 to 179 over the elements still to visit. \<open>l\<close> is
  \<^verbatim>\<open>globSrc.length\<close>, \<open>glob\<close> is \<^verbatim>\<open>glob.sync(pattern, {dot: true})\<close> on the file system of
  the run, \<open>we\<close> is \<^verbatim>\<open>config.werror\<close>; the state is \<open>filesSrc\<close> and the lines logged.
\<close>

fun globLoop ::
    "(string \<Rightarrow> string list) \<Rightarrow> bool \<Rightarrow> jsval \<Rightarrow> nat \<Rightarrow> jsval list \<Rightarrow>
     string list \<times> string list \<Rightarrow> error + string list \<times> string list" where
  "globLoop glob debug we l [] (filesSrc, out) = Inr (filesSrc, out)"
| "globLoop glob debug we l (Str p # rest) (filesSrc, out) =
    (if extname p = ''.zip'' \<and> l > 1 then Inl ZipWithOthers
     else let tmpGlob = glob p
          in if truthy we \<and> length tmpGlob = 0 then Inl (PatternNoMatch p)
             else globLoop glob debug we l rest
                    (filesSrc @ tmpGlob, out @ debugLines debug p tmpGlob))"
| "globLoop glob debug we l (v # rest) (filesSrc, out) = Inl TypeError"

text \<open>Lines 136 to 188. The result is \<open>filesSrc\<close> (\<open>Undefined\<close> while unset) and the
  lines logged.\<close>

definition resolveFiles ::
    "(string \<Rightarrow> string list) \<Rightarrow> bool \<Rightarrow> commander \<Rightarrow> object \<Rightarrow> error + jsval \<times> string list" where
  "resolveFiles glob debug cmd cfg =
    (let g = globSrc cmd cfg
     in if truthy (and_js g (js_length g))
        then (case globLoop glob debug (cfg ''werror'') (length (js_elements g))
                     (js_elements g) ([], []) of
                Inl e \<Rightarrow> Inl e
              | Inr (filesSrc, out) \<Rightarrow>
                  if length filesSrc = 0 then Inl NoFilesMatched
                  else Inr (Arr (map Str filesSrc), out))
        else Inr (Undefined,
               if debug
               then [''No filesSrc provided. Using the ones in the application (if any).'']
               else []))"

subsection \<open>Dispatcher (lines 190 to 279)\<close>

text \<open>The request handed to the remote operation: an object literal, as the list of its
  properties in the order written.\<close>

datatype call =
    DownloadSourceMaps "(string \<times> jsval) list"
  | ProtectAndDownload "(string \<times> jsval) list"

definition dispatch :: "commander \<Rightarrow> object \<Rightarrow> jsval \<Rightarrow> jsval \<Rightarrow> call" where
  "dispatch cmd cfg filesSrc params =
    (let sourceMaps' = (if cfg ''sourceMaps'' = Undefined then Bool False
                        else cfg ''sourceMaps'');
         keys = Obj [(''accessKey'', cfg ''accessKey''), (''secretKey'', cfg ''secretKey'')]
     in if truthy (sourceMaps cmd)
        then DownloadSourceMaps
          [(''keys'', keys),
           (''host'', cfg ''host''),
           (''port'', cfg ''port''),
           (''protocol'', cfg ''protocol''),
           (''cafile'', cfg ''cafile''),
           (''filesDest'', cfg ''filesDest''),
           (''filesSrc'', filesSrc),
           (''protectionId'', sourceMaps cmd)]
        else ProtectAndDownload
          ([(''keys'', keys),
            (''host'', cfg ''host''),
            (''port'', cfg ''port''),
            (''protocol'', cfg ''protocol''),
            (''cafile'', cfg ''cafile''),
            (''applicationId'', cfg ''applicationId''),
            (''filesSrc'', filesSrc),
            (''filesDest'', cfg ''filesDest''),
            (''params'', params),
            (''applicationTypes'', cfg ''applicationTypes''),
            (''languageSpecifications'', cfg ''languageSpecifications''),
            (''areSubscribersOrdered'', cfg ''areSubscribersOrdered''),
            (''cwd'', cfg ''cwd''),
            (''sourceMaps'', sourceMaps'),
            (''randomizationSeed'', cfg ''randomizationSeed''),
            (''useRecommendedOrder'', cfg ''useRecommendedOrder''),
            (''tolerateMinification'', cfg ''tolerateMinification''),
            (''jscramblerVersion'', cfg ''jscramblerVersion''),
            (''debugMode'', cfg ''debugMode''),
            (''proxy'', cfg ''proxy''),
            (''codeHardeningThreshold'', cfg ''codeHardeningThreshold''),
            (''useProfilingData'', cfg ''useProfilingData'')] @
           (if cfg ''werror'' \<noteq> Undefined then [(''bail'', cfg ''werror'')] else [])))"

text \<open>The whole script: the fatal error it exits on, or the one remote call it makes.
  \<open>mergeAndParseParams\<close> is the function of \<^verbatim>\<open>../cli\<close>.\<close>

definition run ::
    "(jsval \<Rightarrow> jsval option) \<Rightarrow> (string \<Rightarrow> string list) \<Rightarrow> (commander \<Rightarrow> jsval \<Rightarrow> jsval) \<Rightarrow>
     bool \<Rightarrow> commander \<Rightarrow> object \<Rightarrow> object \<Rightarrow> error + call" where
  "run filesizeParser glob mergeAndParseParams debug cmd required dflt =
    (case resolveConfig filesizeParser cmd required dflt of
       Inl e \<Rightarrow> Inl e
     | Inr cfg \<Rightarrow>
        (case resolveFiles glob debug cmd cfg of
           Inl e \<Rightarrow> Inl e
         | Inr (filesSrc, out) \<Rightarrow>
             Inr (dispatch cmd cfg filesSrc (mergeAndParseParams cmd (cfg ''params'')))))"

subsection \<open>Vocabulary of the statements\<close>

text \<open>The simple scalar fields of lines 94 to 113, merged as \<^verbatim>\<open>flag || config.field\<close>, and
  the property of \<^verbatim>\<open>commander\<close> each one reads.\<close>

definition simple_fields :: "string list" where
  "simple_fields = [''host'', ''protocol'', ''cafile'', ''filesDest'', ''applicationId'',
     ''randomizationSeed'', ''cwd'', ''jscramblerVersion'', ''debugMode'']"

definition simple_flag :: "commander \<Rightarrow> string \<Rightarrow> jsval" where
  "simple_flag cmd f =
    (if f = ''host'' then host cmd
     else if f = ''protocol'' then protocol cmd
     else if f = ''cafile'' then cafile cmd
     else if f = ''filesDest'' then outputDir cmd
     else if f = ''applicationId'' then applicationId cmd
     else if f = ''randomizationSeed'' then randomizationSeed cmd
     else if f = ''cwd'' then cwd cmd
     else if f = ''jscramblerVersion'' then jscramblerVersion cmd
     else if f = ''debugMode'' then debugMode cmd
     else Undefined)"

text \<open>The boolean-flag fields of lines 104 to 110 and 123 to 125, with the option each
  one reads.\<close>

definition bool_fields :: "string list" where
  "bool_fields = [''useRecommendedOrder'', ''tolerateMinification'', ''werror'',
     ''useProfilingData'']"

definition bool_flag :: "commander \<Rightarrow> string \<Rightarrow> jsval" where
  "bool_flag cmd f =
    (if f = ''useRecommendedOrder'' then recommendedOrder cmd
     else if f = ''tolerateMinification'' then tolerateMinification cmd
     else if f = ''werror'' then werror cmd
     else if f = ''useProfilingData'' then useProfilingData cmd
     else Undefined)"

text \<open>One property of the resolved configuration, when there is one.\<close>

definition property :: "string \<Rightarrow> error + object \<Rightarrow> error + jsval" where
  "property k r = (case r of Inl e \<Rightarrow> Inl e | Inr cfg \<Rightarrow> Inr (cfg k))"

text \<open>The properties of a request, and one of them (\<open>None\<close> when the request has no such
  property, or the run made no request).\<close>

fun request :: "call \<Rightarrow> (string \<times> jsval) list" where
  "request (DownloadSourceMaps r) = r"
| "request (ProtectAndDownload r) = r"

definition request_field :: "string \<Rightarrow> error + call \<Rightarrow> jsval option" where
  "request_field k r = (case r of Inl e \<Rightarrow> None | Inr c \<Rightarrow> map_of (request c) k)"

text \<open>A pattern list is ambiguous when it holds an archive beside other patterns.\<close>

definition zip_with_others :: "string list \<Rightarrow> bool" where
  "zip_with_others ps = (length ps > 1 \<and> (\<exists>p \<in> set ps. extname p = ''.zip''))"

subsection \<open>Inputs of the examples\<close>

text \<open>What \<^verbatim>\<open>filesize-parser\<close> returns on the three inputs the examples use; on these it
  is the library (a bare number is a number of bytes, \<^verbatim>\<open>kb\<close> is 1024 bytes).\<close>

definition example_filesizeParser :: "jsval \<Rightarrow> jsval option" where
  "example_filesizeParser v =
    (if v = Num 0 \<or> v = Str ''0'' then Some (Num 0)
     else if v = Str ''200kb'' then Some (Num 204800)
     else None)"

text \<open>A file system with \<^verbatim>\<open>src/a.js\<close>, \<^verbatim>\<open>src/b.js\<close> and \<^verbatim>\<open>bundle.zip\<close>.\<close>

definition example_glob :: "string \<Rightarrow> string list" where
  "example_glob p =
    (if p = ''src/*.js'' then [''src/a.js'', ''src/b.js'']
     else if p = ''src/a.js'' then [''src/a.js'']
     else if p = ''bundle.zip'' then [''bundle.zip'']
     else [])"

text \<open>A port of 310 digits: a one and 309 zeros.\<close>

definition example_long_port :: string where
  "example_long_port = CHR ''1'' # replicate 309 (CHR ''0'')"

text \<open>A stand-in for \<^verbatim>\<open>mergeAndParseParams\<close>: the parameters of the config file.\<close>

definition example_params :: "commander \<Rightarrow> jsval \<Rightarrow> jsval" where
  "example_params cmd params = params"

section \<open>Properties\<close>

subsection \<open>Reading the merged object\<close>

lemma assign_apply: "assign k rhs cfg k' = (if k' = k then rhs cfg else cfg k')"
  by (simp add: assign_def)

lemma mergeFields_statements:
  "mergeFields cmd cfg0 =
     assign ''debugMode'' (\<lambda>cfg. or_js (debugMode cmd) (cfg ''debugMode''))
     (assign ''jscramblerVersion'' (\<lambda>cfg.
        or_js (jscramblerVersion cmd) (cfg ''jscramblerVersion''))
     (assign ''werror'' (\<lambda>cfg.
        if truthy (werror cmd) then Bool (werror cmd \<noteq> Str ''false'') else cfg ''werror'')
     (assign ''tolerateMinification'' (\<lambda>cfg.
        if truthy (tolerateMinification cmd)
        then Bool (tolerateMinification cmd \<noteq> Str ''false'')
        else cfg ''tolerateMinification'')
     (assign ''useRecommendedOrder'' (\<lambda>cfg.
        if truthy (recommendedOrder cmd) then Bool (recommendedOrder cmd \<noteq> Str ''false'')
        else cfg ''useRecommendedOrder'')
     (assign ''cwd'' (\<lambda>cfg. or_js (cwd cmd) (cfg ''cwd''))
     (assign ''randomizationSeed'' (\<lambda>cfg.
        or_js (randomizationSeed cmd) (cfg ''randomizationSeed''))
     (assign ''applicationId'' (\<lambda>cfg. or_js (applicationId cmd) (cfg ''applicationId''))
     (assign ''filesDest'' (\<lambda>cfg. or_js (outputDir cmd) (cfg ''filesDest''))
     (assign ''cafile'' (\<lambda>cfg. or_js (cafile cmd) (cfg ''cafile''))
     (assign ''protocol'' (\<lambda>cfg. or_js (protocol cmd) (cfg ''protocol''))
     (assign ''port'' (\<lambda>cfg. and_js (cfg ''port'') (parseInt (cfg ''port'')))
     (assign ''port'' (\<lambda>cfg. or_js (port cmd) (cfg ''port''))
     (assign ''host'' (\<lambda>cfg. or_js (host cmd) (cfg ''host''))
     (assign ''secretKey'' (\<lambda>cfg. or_js (secretKey cmd)
        (if truthy (cfg ''keys'') then get_prop (cfg ''keys'') ''secretKey'' else Undefined))
     (assign ''accessKey'' (\<lambda>cfg. or_js (accessKey cmd)
        (if truthy (cfg ''keys'') then get_prop (cfg ''keys'') ''accessKey'' else Undefined))
      cfg0)))))))))))))))"
  unfolding mergeFields_def fold_simps comp_apply id_apply ..

lemma mergeFields_apply:
  "mergeFields cmd c0 ''accessKey'' = or_js (accessKey cmd)
     (if truthy (c0 ''keys'') then get_prop (c0 ''keys'') ''accessKey'' else Undefined)"
  "mergeFields cmd c0 ''secretKey'' = or_js (secretKey cmd)
     (if truthy (c0 ''keys'') then get_prop (c0 ''keys'') ''secretKey'' else Undefined)"
  "mergeFields cmd c0 ''host'' = or_js (host cmd) (c0 ''host'')"
  "mergeFields cmd c0 ''port'' =
     and_js (or_js (port cmd) (c0 ''port'')) (parseInt (or_js (port cmd) (c0 ''port'')))"
  "mergeFields cmd c0 ''protocol'' = or_js (protocol cmd) (c0 ''protocol'')"
  "mergeFields cmd c0 ''cafile'' = or_js (cafile cmd) (c0 ''cafile'')"
  "mergeFields cmd c0 ''filesDest'' = or_js (outputDir cmd) (c0 ''filesDest'')"
  "mergeFields cmd c0 ''applicationId'' = or_js (applicationId cmd) (c0 ''applicationId'')"
  "mergeFields cmd c0 ''randomizationSeed'' =
     or_js (randomizationSeed cmd) (c0 ''randomizationSeed'')"
  "mergeFields cmd c0 ''cwd'' = or_js (cwd cmd) (c0 ''cwd'')"
  "mergeFields cmd c0 ''useRecommendedOrder'' =
     (if truthy (recommendedOrder cmd) then Bool (recommendedOrder cmd \<noteq> Str ''false'')
      else c0 ''useRecommendedOrder'')"
  "mergeFields cmd c0 ''tolerateMinification'' =
     (if truthy (tolerateMinification cmd)
      then Bool (tolerateMinification cmd \<noteq> Str ''false'')
      else c0 ''tolerateMinification'')"
  "mergeFields cmd c0 ''werror'' =
     (if truthy (werror cmd) then Bool (werror cmd \<noteq> Str ''false'') else c0 ''werror'')"
  "mergeFields cmd c0 ''jscramblerVersion'' =
     or_js (jscramblerVersion cmd) (c0 ''jscramblerVersion'')"
  "mergeFields cmd c0 ''debugMode'' = or_js (debugMode cmd) (c0 ''debugMode'')"
  by (simp_all add: mergeFields_statements assign_apply)

lemma mergeFields_frame:
  assumes "k \<notin> set [''accessKey'', ''secretKey'', ''host'', ''port'', ''protocol'', ''cafile'',
     ''filesDest'', ''applicationId'', ''randomizationSeed'', ''cwd'', ''useRecommendedOrder'',
     ''tolerateMinification'', ''werror'', ''jscramblerVersion'', ''debugMode'']"
  shows "mergeFields cmd c0 k = c0 k"
  using assms by (simp add: mergeFields_statements assign_apply)

lemma mergeFields_simple_all:
  "\<forall>f \<in> set simple_fields. mergeFields cmd c0 f = or_js (simple_flag cmd f) (c0 f)"
  unfolding simple_fields_def by (simp add: mergeFields_apply simple_flag_def)

lemma mergeFields_simple:
  assumes "f \<in> set simple_fields"
  shows "mergeFields cmd c0 f = or_js (simple_flag cmd f) (c0 f)"
  using assms mergeFields_simple_all by blast


lemma mergeConfig_Inr:
  assumes "mergeConfig fsp cmd c0 = Inr m"
  obtains t where "mergeCodeHardeningThreshold fsp cmd (mergeFields cmd c0) = Inr t"
    and "m = mergeUseProfilingData cmd ((mergeFields cmd c0)(''codeHardeningThreshold'' := t))"
    and "\<not> (truthy (m ''jscramblerVersion'') \<and> \<not> version_test (m ''jscramblerVersion''))"
proof -
  let ?c = "mergeFields cmd c0"
  from assms obtain t where t: "mergeCodeHardeningThreshold fsp cmd ?c = Inr t"
    and chk: "checkJscramblerVersion
        (mergeUseProfilingData cmd (?c(''codeHardeningThreshold'' := t))) = Inr m"
    by (auto simp: mergeConfig_def Let_def split: sum.splits)
  from chk have "m = mergeUseProfilingData cmd (?c(''codeHardeningThreshold'' := t))"
    and "\<not> (truthy (m ''jscramblerVersion'') \<and> \<not> version_test (m ''jscramblerVersion''))"
    by (simp_all add: checkJscramblerVersion_def split: if_splits)
  with t that show ?thesis by blast
qed

lemma mergeConfig_other:
  assumes "mergeConfig fsp cmd c0 = Inr m"
    and "k \<noteq> ''codeHardeningThreshold''" and "k \<noteq> ''useProfilingData''"
  shows "m k = mergeFields cmd c0 k"
proof -
  from assms(1) obtain t where
    "m = mergeUseProfilingData cmd ((mergeFields cmd c0)(''codeHardeningThreshold'' := t))"
    by (rule mergeConfig_Inr)
  with assms(2,3) show ?thesis by (simp add: mergeUseProfilingData_def)
qed

lemma mergeConfig_useProfilingData:
  assumes "mergeConfig fsp cmd c0 = Inr m"
  shows "m ''useProfilingData'' =
    (if truthy (useProfilingData cmd) then Bool (useProfilingData cmd \<noteq> Str ''false'')
     else c0 ''useProfilingData'')"
proof -
  from assms obtain t where
    "m = mergeUseProfilingData cmd ((mergeFields cmd c0)(''codeHardeningThreshold'' := t))"
    by (rule mergeConfig_Inr)
  then show ?thesis by (simp add: mergeUseProfilingData_def mergeFields_frame)
qed

text \<open>The version the check of line 127 reads.\<close>

lemma version_unchanged:
  "mergeUseProfilingData cmd ((mergeFields cmd c0)(''codeHardeningThreshold'' := t))
     ''jscramblerVersion'' = or_js (jscramblerVersion cmd) (c0 ''jscramblerVersion'')"
  by (simp add: mergeUseProfilingData_def mergeFields_apply)

lemma threshold_assigned:
  "mergeUseProfilingData cmd ((mergeFields cmd c0)(''codeHardeningThreshold'' := t))
     ''codeHardeningThreshold'' = t"
  by (simp add: mergeUseProfilingData_def)

lemma property_threshold:
  "property ''codeHardeningThreshold'' (mergeConfig fsp cmd c0) =
    (case mergeCodeHardeningThreshold fsp cmd (mergeFields cmd c0) of
       Inl e \<Rightarrow> Inl e
     | Inr t \<Rightarrow>
        if truthy (or_js (jscramblerVersion cmd) (c0 ''jscramblerVersion'')) \<and>
           \<not> version_test (or_js (jscramblerVersion cmd) (c0 ''jscramblerVersion''))
        then Inl VersionFormat else Inr t)"
  by (cases "mergeCodeHardeningThreshold fsp cmd (mergeFields cmd c0)")
     (simp_all add: mergeConfig_def Let_def property_def checkJscramblerVersion_def
        version_unchanged threshold_assigned)

lemma threshold_reads_config:
  "mergeCodeHardeningThreshold fsp cmd (mergeFields cmd c0) =
    (if codeHardeningThreshold cmd = Undefined
     then (if truthy (c0 ''codeHardeningThreshold'')
           then validateCodeHardeningThreshold fsp (c0 ''codeHardeningThreshold'')
           else Inr Undefined)
     else Inr (codeHardeningThreshold cmd))"
  by (simp add: mergeCodeHardeningThreshold_def mergeFields_frame)

lemma resolveConfig_Inr:
  assumes "resolveConfig fsp cmd required dflt = Inr cfg"
  obtains m where "mergeConfig fsp cmd (loadConfig cmd required) = Inr m"
    and "cfg = defaults m dflt"
  using assms by (auto simp: resolveConfig_def split: sum.splits)

lemma property_resolveConfig:
  "property k (resolveConfig fsp cmd required dflt) =
    (case property k (mergeConfig fsp cmd (loadConfig cmd required)) of
       Inl e \<Rightarrow> Inl e
     | Inr v \<Rightarrow> Inr (if v = Undefined then dflt k else v))"
  by (simp add: resolveConfig_def property_def defaults_def split: sum.splits)

lemma validateBool_Inr:
  assumes "validateBool name raw = Inr s"
  shows "s = map to_lower raw \<and> (s = ''true'' \<or> s = ''false'')"
  using assms by (auto simp: validateBool_def split: if_splits)

lemma mergeConfig_bool:
  assumes "mergeConfig fsp cmd c0 = Inr m" and "f \<in> set bool_fields"
  shows "m f = (if truthy (bool_flag cmd f) then Bool (bool_flag cmd f \<noteq> Str ''false'')
                else c0 f)"
proof -
  note other = mergeConfig_other [OF assms(1)]
  from assms(2) have "f = ''useRecommendedOrder'' \<or> f = ''tolerateMinification'' \<or>
      f = ''werror'' \<or> f = ''useProfilingData''"
    by (simp add: bool_fields_def)
  then show ?thesis
  proof (elim disjE)
    assume f: "f = ''useRecommendedOrder''"
    show ?thesis unfolding f by (simp add: other bool_flag_def mergeFields_apply)
  next
    assume f: "f = ''tolerateMinification''"
    show ?thesis unfolding f by (simp add: other bool_flag_def mergeFields_apply)
  next
    assume f: "f = ''werror''"
    show ?thesis unfolding f by (simp add: other bool_flag_def mergeFields_apply)
  next
    assume f: "f = ''useProfilingData''"
    show ?thesis unfolding f
      by (simp add: mergeConfig_useProfilingData [OF assms(1)] bool_flag_def)
  qed
qed

lemma resolveConfig_succeeds:
  assumes "mergeCodeHardeningThreshold fsp cmd (mergeFields cmd (loadConfig cmd required)) = Inr t"
    and "\<not> (truthy (or_js (jscramblerVersion cmd) (loadConfig cmd required ''jscramblerVersion''))
      \<and> \<not> version_test (or_js (jscramblerVersion cmd) (loadConfig cmd required ''jscramblerVersion'')))"
  shows "\<exists>cfg. resolveConfig fsp cmd required dflt = Inr cfg"
  using assms
  by (simp add: resolveConfig_def mergeConfig_def Let_def checkJscramblerVersion_def
      version_unchanged)


lemmas eval_simps = property_def resolveConfig_def mergeConfig_def loadConfig_def
  mergeCodeHardeningThreshold_def mergeUseProfilingData_def checkJscramblerVersion_def
  validateCodeHardeningThreshold_def example_filesizeParser_def
  defaults_def empty_object_def no_options_def or_js_def and_js_def
  mergeFields_apply mergeFields_frame Let_def

subsection \<open>Numbers that \<^verbatim>\<open>parseInt\<close> returns\<close>

lemma bits_le: "n < 2 ^ k \<Longrightarrow> bits n \<le> k"
proof (induction k arbitrary: n)
  case 0
  then have "n = 0" by simp
  then show ?case by (simp add: bits.simps)
next
  case (Suc k)
  from Suc.prems have "n div 2 < 2 ^ k" by simp
  then have "bits (n div 2) \<le> k" by (rule Suc.IH)
  then show ?case by (subst bits.simps) simp
qed

lemma bits_gt: "2 ^ k \<le> n \<Longrightarrow> k < bits n"
proof (induction k arbitrary: n)
  case 0
  then have "n \<noteq> 0" by simp
  then show ?case by (subst bits.simps) simp
next
  case (Suc k)
  have "(0::nat) < 2 ^ Suc k" by simp
  from this Suc.prems have "0 < n" by (rule less_le_trans)
  from Suc.prems have "2 ^ Suc k div 2 \<le> n div 2" by (rule div_le_mono)
  then have "2 ^ k \<le> n div 2" by simp
  then have "k < bits (n div 2)" by (rule Suc.IH)
  with \<open>0 < n\<close> show ?case by (subst bits.simps) simp
qed

lemma bits_lower: "n \<noteq> 0 \<Longrightarrow> 2 ^ (bits n - 1) \<le> n"
proof (induction n rule: bits.induct)
  case (1 n)
  show ?case
  proof (cases "n div 2 = 0")
    case True
    with "1.prems" have "n = 1" by (simp add: div_eq_0_iff)
    then show ?thesis by (simp add: bits.simps)
  next
    case False
    with "1.IH" "1.prems" have ih: "2 ^ (bits (n div 2) - 1) \<le> n div 2" by simp
    from False have "bits (n div 2) \<noteq> 0" by (subst bits.simps) simp
    then have "(2::nat) ^ bits (n div 2) = 2 * 2 ^ (bits (n div 2) - 1)"
      by (cases "bits (n div 2)") simp_all
    also from ih have "\<dots> \<le> 2 * (n div 2)" by simp
    also have "\<dots> \<le> n" by simp
    finally have "(2::nat) ^ bits (n div 2) \<le> n" .
    moreover from "1.prems" have "bits n - 1 = bits (n div 2)" by (subst bits.simps) simp
    ultimately show ?thesis by simp
  qed
qed

lemma round_double_exact: "n < 2 ^ 53 \<Longrightarrow> round_double n = Some n"
  by (simp add: round_double_def bits_le)

lemma round_double_overflow:
  assumes "2 ^ 1024 \<le> n"
  shows "round_double n = None"
proof -
  let ?b = "bits n"
  let ?ulp = "(2::nat) ^ (?b - 53)"
  from assms have b: "1024 < ?b" by (rule bits_gt)
  from assms have "n \<noteq> 0" by auto
  then have low: "2 ^ (?b - 1) \<le> n" by (rule bits_lower)
  from b have "?b - 1 = 52 + (?b - 53)" by simp
  then have split: "(2::nat) ^ (?b - 1) = 2 ^ 52 * ?ulp"
    by (simp only: power_add)
  from low have "2 ^ 52 * ?ulp div ?ulp \<le> n div ?ulp"
    unfolding split by (rule div_le_mono)
  then have q: "2 ^ 52 \<le> n div ?ulp" by simp
  have "(2::nat) ^ 1024 \<le> 2 ^ (?b - 1)"
    using b by (intro power_increasing) simp_all
  also have "\<dots> = 2 ^ 52 * ?ulp" by (rule split)
  also from q have "\<dots> \<le> (n div ?ulp) * ?ulp" by (rule mult_le_mono1)
  finally have big: "2 ^ 1024 \<le> (n div ?ulp) * ?ulp" .
  then have "2 ^ 1024 \<le> (n div ?ulp + 1) * ?ulp"
    by (simp add: add_mult_distrib)
  with big b show ?thesis by (simp add: round_double_def Let_def)
qed

lemma number_cases:
  "number neg n = Infinity \<or> number neg n = NegInfinity \<or> (\<exists>i. number neg n = Num i)"
  by (simp add: number_def split: option.splits)

lemma parseInt_cases:
  "parseInt v = NaN \<or> parseInt v = Infinity \<or> parseInt v = NegInfinity \<or>
   (\<exists>i. parseInt v = Num i)"
proof -
  have result: "(if c then NaN else number neg n) = NaN \<or>
      (if c then NaN else number neg n) = Infinity \<or>
      (if c then NaN else number neg n) = NegInfinity \<or>
      (\<exists>i. (if c then NaN else number neg n) = Num i)" for c neg n
    using number_cases [of neg n] by (cases c) auto
  show ?thesis unfolding parseInt_def Let_def by (rule result)
qed

lemma parseInt_not_Str: "parseInt v \<noteq> Str s"
  using parseInt_cases [of v] by auto

text \<open>A string of decimal digits: nothing is stripped, and all of it is read.\<close>

lemma digit_in_radix: "is_digit c \<Longrightarrow> in_radix 10 c"
proof -
  have "\<forall>c \<in> set ''0123456789''. in_radix 10 c"
    by (simp add: in_radix_def digit_value_def)
  then show "is_digit c \<Longrightarrow> in_radix 10 c" unfolding is_digit_def by blast
qed

lemma space_prefix_other:
  assumes "\<forall>w \<in> set ws. w \<noteq> [] \<longrightarrow> hd w \<noteq> c"
  shows "space_prefix ws (c # cs) = 0"
  using assms
proof (induction ws)
  case Nil
  show ?case by simp
next
  case (Cons w ws)
  have "take (length w) (c # cs) \<noteq> w" if "w \<noteq> []"
  proof -
    from that obtain x xs where w: "w = x # xs" by (cases w) auto
    with Cons.prems have "x \<noteq> c" by simp
    then show ?thesis by (simp add: w)
  qed
  with Cons show ?case by auto
qed

lemma space_prefix_digit:
  assumes "is_digit c"
  shows "space_prefix white_space (c # cs) = 0"
proof -
  let ?first = "[CHR 0x09, CHR 0x0A, CHR 0x0B, CHR 0x0C, CHR 0x0D, CHR 0x20, CHR 0xC2,
    CHR 0xE1, CHR 0xE2, CHR 0xE3, CHR 0xEF]"
  have first: "\<forall>w \<in> set white_space. hd w \<in> set ?first"
    by (simp add: white_space_def)
  have "\<forall>d \<in> set ''0123456789''. d \<notin> set ?first" by simp
  with assms have "c \<notin> set ?first" unfolding is_digit_def by blast
  with first have "\<forall>w \<in> set white_space. w \<noteq> [] \<longrightarrow> hd w \<noteq> c" by blast
  then show ?thesis by (rule space_prefix_other)
qed

lemma parseInt_digits:
  assumes "ds \<noteq> []" and "list_all is_digit ds"
  shows "parseInt (Str ds) = number False (digits_value 10 ds)"
proof -
  from assms obtain c cs where ds: "ds = c # cs" and c: "is_digit c" and cs: "list_all is_digit cs"
    by (cases ds) auto
  have strip: "trim_start ds = ds"
    unfolding ds trim_start_def by (subst strip.simps) (simp add: space_prefix_digit c)
  from c have sign: "take 1 ds \<noteq> ''-''" "take 1 ds \<noteq> ''+''"
    by (auto simp: ds is_digit_def)
  have "\<not> is_digit (CHR ''x'')" "\<not> is_digit (CHR ''X'')" by (simp_all add: is_digit_def)
  with cs have hex: "take 2 ds \<noteq> ''0x''" "take 2 ds \<noteq> ''0X''"
    by (cases cs; auto simp: ds)+
  from assms(2) have all: "takeWhile (in_radix 10) ds = ds"
    by (auto simp: list_all_iff digit_in_radix intro!: takeWhile_eq_all_conv [THEN iffD2])
  from assms(1) have ne: "(ds = []) = False" by simp
  show ?thesis
    by (simp only: parseInt_def Let_def toString.simps strip sign hex all ne if_False simp_thms)
qed

lemma digit_value_0_1:
  "the (digit_value (CHR ''0'')) = 0" "the (digit_value (CHR ''1'')) = 1"
  by (simp_all add: digit_value_def)

lemma digits_value_zeros:
  "foldl (\<lambda>a c. a * 10 + the (digit_value c)) a (replicate n (CHR ''0'')) = a * 10 ^ n"
  by (induction n arbitrary: a) (simp_all add: digit_value_0_1)

lemma digits_value_power: "digits_value 10 (CHR ''1'' # replicate n (CHR ''0'')) = 10 ^ n"
  by (simp add: digits_value_def digit_value_0_1 digits_value_zeros)

subsection \<open>The loop over the patterns\<close>

text \<open>The loop run over a list of strings: what it returns when it completes.\<close>

lemma globLoop_Inr:
  assumes "globLoop glob debug we l (map Str ps) (fs, out) = Inr (fs', out')"
  shows "fs' = fs @ concat (map glob ps) \<and>
         out' = out @ concat (map (\<lambda>p. debugLines debug p (glob p)) ps)"
  using assms
proof (induction ps arbitrary: fs out)
  case Nil
  then show ?case by simp
next
  case (Cons p ps)
  from Cons.prems have step: "globLoop glob debug we l (map Str ps)
      (fs @ glob p, out @ debugLines debug p (glob p)) = Inr (fs', out')"
    by (simp add: Let_def split: if_splits)
  from Cons.IH [OF step] show ?case by simp
qed

text \<open>The loop completes when no check fires.\<close>

lemma globLoop_completes:
  assumes "l > 1 \<longrightarrow> (\<forall>p \<in> set ps. extname p \<noteq> ''.zip'')"
    and "truthy we \<longrightarrow> (\<forall>p \<in> set ps. glob p \<noteq> [])"
  shows "globLoop glob debug we l (map Str ps) (fs, out) =
     Inr (fs @ concat (map glob ps),
          out @ concat (map (\<lambda>p. debugLines debug p (glob p)) ps))"
  using assms
proof (induction ps arbitrary: fs out)
  case Nil
  then show ?case by simp
next
  case (Cons p ps)
  from Cons.prems have zip: "\<not> (extname p = ''.zip'' \<and> l > 1)"
    and none: "\<not> (truthy we \<and> length (glob p) = 0)" by auto
  from Cons.prems have rest: "l > 1 \<longrightarrow> (\<forall>p \<in> set ps. extname p \<noteq> ''.zip'')"
    "truthy we \<longrightarrow> (\<forall>p \<in> set ps. glob p \<noteq> [])" by auto
  have "globLoop glob debug we l (map Str (p # ps)) (fs, out) =
      globLoop glob debug we l (map Str ps)
        (fs @ glob p, out @ debugLines debug p (glob p))"
    using zip none by (auto simp: Let_def)
  also have "\<dots> = Inr ((fs @ glob p) @ concat (map glob ps),
      (out @ debugLines debug p (glob p)) @
        concat (map (\<lambda>p. debugLines debug p (glob p)) ps))"
    using rest by (rule Cons.IH)
  finally show ?case by simp
qed


text \<open>An archive among several patterns stops the loop, at the archive or before it.\<close>

lemma globLoop_zip:
  assumes "l > 1" and "p \<in> set ps" and "extname p = ''.zip''"
  shows "\<exists>e. globLoop glob debug we l (map Str ps) (fs, out) = Inl e \<and>
     (e = ZipWithOthers \<or>
      (truthy we \<and> (\<exists>q \<in> set ps. e = PatternNoMatch q \<and> glob q = [])))"
  using assms(2)
proof (induction ps arbitrary: fs out)
  case Nil
  then show ?case by simp
next
  case (Cons q ps)
  show ?case
  proof (cases "extname q = ''.zip''")
    case True
    with assms(1) show ?thesis by simp
  next
    case notzip: False
    show ?thesis
    proof (cases "truthy we \<and> glob q = []")
      case True
      with notzip show ?thesis by simp
    next
      case False
      from notzip Cons.prems assms(3) have "p \<in> set ps" by auto
      from Cons.IH [OF this]
      obtain e where e: "globLoop glob debug we l (map Str ps)
            (fs @ glob q, out @ debugLines debug q (glob q)) = Inl e"
        and kind: "e = ZipWithOthers \<or>
            (truthy we \<and> (\<exists>r \<in> set ps. e = PatternNoMatch r \<and> glob r = []))"
        by blast
      from notzip False e have "globLoop glob debug we l (map Str (q # ps)) (fs, out) = Inl e"
        by (auto simp: Let_def)
      with kind show ?thesis by auto
    qed
  qed
qed

text \<open>With strict matching, a pattern list that matches nothing stops the loop at its
  first pattern.\<close>

lemma globLoop_first_strict:
  assumes "truthy we" and "ps \<noteq> []" and "concat (map glob ps) = []"
  shows "globLoop glob debug we l (map Str ps) (fs, out) =
     Inl (if extname (hd ps) = ''.zip'' \<and> l > 1 then ZipWithOthers
          else PatternNoMatch (hd ps))"
proof -
  from assms(2) obtain p rest where ps: "ps = p # rest" by (cases ps) auto
  with assms(3) have "glob p = []" by simp
  with assms(1) show ?thesis unfolding ps by simp
qed

text \<open>The loop has its own errors; \<open>No files matched.\<close> is not one of them.\<close>

lemma globLoop_error: "globLoop glob debug we l xs st \<noteq> Inl NoFilesMatched"
proof (induction glob debug we l xs st rule: globLoop.induct)
  case (1 glob debug we l filesSrc out)
  show ?case by simp
next
  case (2 glob debug we l p rest filesSrc out)
  then show ?case by (simp add: Let_def)
qed simp_all

text \<open>Lines 136 to 183 for a non-empty list of string patterns.\<close>

lemma resolveFiles_patterns:
  assumes "globSrc cmd cfg = Arr (map Str ps)" and "ps \<noteq> []"
  shows "resolveFiles glob debug cmd cfg =
    (case globLoop glob debug (cfg ''werror'') (length ps) (map Str ps) ([], []) of
       Inl e \<Rightarrow> Inl e
     | Inr (filesSrc, out) \<Rightarrow>
         if length filesSrc = 0 then Inl NoFilesMatched
         else Inr (Arr (map Str filesSrc), out))"
  using assms by (simp add: resolveFiles_def and_js_def)

lemma exit_code_1: "exit_code e = 1"
  by (cases e) simp_all

subsection \<open>Claim C1: precedence of flag, config file and default\<close>

text \<open>
  C1, as amended. For each simple scalar field (\<open>host\<close>, \<open>protocol\<close>, \<open>cafile\<close>,
  \<open>filesDest\<close>, \<open>applicationId\<close>, \<open>randomizationSeed\<close>, \<open>cwd\<close>, \<open>jscramblerVersion\<close>,
  \<open>debugMode\<close>) with flag value \<open>F\<close>, config-file value \<open>C\<close> and default \<open>D\<close>, the
  resolved value is \<open>F\<close> if \<open>F\<close> is truthy, else \<open>C\<close> if \<open>C\<close> is not \<open>undefined\<close>, else
  \<open>D\<close>. The default layer assigns exactly the properties of the merged object that are
  \<open>undefined\<close>, so a falsy but present config-file value of such a field is kept.
\<close>

theorem C1_three_tier_fallback:
  assumes "resolveConfig fsp cmd required dflt = Inr cfg" and "f \<in> set simple_fields"
  shows "cfg f =
      (if truthy (simple_flag cmd f) then simple_flag cmd f
       else if loadConfig cmd required f \<noteq> Undefined then loadConfig cmd required f
       else dflt f)
    \<and> (\<exists>m. mergeConfig fsp cmd (loadConfig cmd required) = Inr m \<and>
          (\<forall>k. cfg k = (if m k = Undefined then dflt k else m k)))
    \<and> (\<not> truthy (simple_flag cmd f) \<and> loadConfig cmd required f \<noteq> Undefined \<longrightarrow>
          cfg f = loadConfig cmd required f)"
proof -
  from assms(1) obtain m where m: "mergeConfig fsp cmd (loadConfig cmd required) = Inr m"
    and cfg: "cfg = defaults m dflt" by (rule resolveConfig_Inr)
  have "f \<noteq> ''codeHardeningThreshold''" "f \<noteq> ''useProfilingData''"
    using assms(2) by (auto simp: simple_fields_def)
  with m have "m f = mergeFields cmd (loadConfig cmd required) f"
    by (rule mergeConfig_other)
  then have mf: "m f = or_js (simple_flag cmd f) (loadConfig cmd required f)"
    using assms(2) by (simp add: mergeFields_simple)
  have tier: "cfg f = (if truthy (simple_flag cmd f) then simple_flag cmd f
       else if loadConfig cmd required f \<noteq> Undefined then loadConfig cmd required f
       else dflt f)"
  proof (cases "truthy (simple_flag cmd f)")
    case True
    then have "simple_flag cmd f \<noteq> Undefined" by auto
    with True show ?thesis by (simp add: cfg defaults_def mf or_js_def)
  next
    case False
    then show ?thesis by (simp add: cfg defaults_def mf or_js_def)
  qed
  have layer: "\<forall>k. cfg k = (if m k = Undefined then dflt k else m k)"
    by (simp add: cfg defaults_def)
  from tier have "\<not> truthy (simple_flag cmd f) \<and> loadConfig cmd required f \<noteq> Undefined \<longrightarrow>
      cfg f = loadConfig cmd required f" by simp
  with tier layer m show ?thesis by blast
qed

text \<open>The example of the specification: no \<^verbatim>\<open>--host\<close>, a config file with a host and
  \<^verbatim>\<open>debugMode: false\<close>, defaults with another host and \<^verbatim>\<open>debugMode: true\<close>.\<close>

theorem C1_witness:
  "''host'' \<in> set simple_fields \<and> ''debugMode'' \<in> set simple_fields \<and>
   property ''host''
     (resolveConfig example_filesizeParser (no_options\<lparr>config := Str ''jscrambler.json''\<rparr>)
        (empty_object(''host'' := Str ''api.example.com'', ''debugMode'' := Bool False))
        (empty_object(''host'' := Str ''localhost'', ''debugMode'' := Bool True)))
     = Inr (Str ''api.example.com'') \<and>
   property ''debugMode''
     (resolveConfig example_filesizeParser (no_options\<lparr>config := Str ''jscrambler.json''\<rparr>)
        (empty_object(''host'' := Str ''api.example.com'', ''debugMode'' := Bool False))
        (empty_object(''host'' := Str ''localhost'', ''debugMode'' := Bool True)))
     = Inr (Bool False)"
proof -
  let ?cmd = "no_options\<lparr>config := Str ''jscrambler.json''\<rparr>"
  let ?req = "empty_object(''host'' := Str ''api.example.com'', ''debugMode'' := Bool False)"
  let ?dflt = "empty_object(''host'' := Str ''localhost'', ''debugMode'' := Bool True)"
  have "\<exists>cfg. resolveConfig example_filesizeParser ?cmd ?req ?dflt = Inr cfg"
    by (rule resolveConfig_succeeds [where t = Undefined])
       (simp_all add: eval_simps)
  then obtain cfg where r: "resolveConfig example_filesizeParser ?cmd ?req ?dflt = Inr cfg" ..
  have h: "''host'' \<in> set simple_fields" and d: "''debugMode'' \<in> set simple_fields"
    by (simp_all add: simple_fields_def)
  from C1_three_tier_fallback [OF r h] have "cfg ''host'' = Str ''api.example.com''"
    by (simp add: simple_flag_def loadConfig_def no_options_def empty_object_def)
  moreover from C1_three_tier_fallback [OF r d] have "cfg ''debugMode'' = Bool False"
    by (simp add: simple_flag_def loadConfig_def no_options_def empty_object_def)
  ultimately show ?thesis using r h d by (simp add: property_def)
qed

text \<open>As stated, C1 takes the flag whenever it is defined. The flag \<^verbatim>\<open>--host ''\<close> is
  defined and is not the resolved value: the config file's host is.\<close>

theorem C1_counterexample:
  "host (no_options\<lparr>config := Str ''jscrambler.json'', host := Str []\<rparr>) = Str [] \<and>
   Str [] \<noteq> Undefined \<and>
   property ''host''
     (resolveConfig example_filesizeParser
        (no_options\<lparr>config := Str ''jscrambler.json'', host := Str []\<rparr>)
        (empty_object(''host'' := Str ''api.example.com''))
        (empty_object(''host'' := Str ''localhost'')))
   = Inr (Str ''api.example.com'')"
  by (simp add: eval_simps)

subsection \<open>Claim C2: the two requests\<close>

lemma run_Inr:
  assumes "run fsp glob mapp debug cmd required dflt = Inr c"
  obtains cfg fs out where "resolveConfig fsp cmd required dflt = Inr cfg"
    and "resolveFiles glob debug cmd cfg = Inr (fs, out)"
    and "c = dispatch cmd cfg fs (mapp cmd (cfg ''params''))"
  using assms by (auto simp: run_def split: sum.splits)

lemma dispatch_download:
  assumes "truthy (sourceMaps cmd)"
  shows "dispatch cmd cfg fs ps = DownloadSourceMaps
    [(''keys'', Obj [(''accessKey'', cfg ''accessKey''), (''secretKey'', cfg ''secretKey'')]),
     (''host'', cfg ''host''), (''port'', cfg ''port''), (''protocol'', cfg ''protocol''),
     (''cafile'', cfg ''cafile''), (''filesDest'', cfg ''filesDest''), (''filesSrc'', fs),
     (''protectionId'', sourceMaps cmd)]"
  using assms by (simp add: dispatch_def Let_def)

lemma dispatch_protect:
  assumes "\<not> truthy (sourceMaps cmd)"
  shows "\<exists>r. dispatch cmd cfg fs ps = ProtectAndDownload r \<and>
     map_of r ''protectionId'' = None \<and>
     map_of r ''sourceMaps'' =
       Some (if cfg ''sourceMaps'' = Undefined then Bool False else cfg ''sourceMaps'') \<and>
     map_of r ''applicationId'' = Some (cfg ''applicationId'') \<and>
     map_of r ''params'' = Some ps"
  using assms by (simp add: dispatch_def Let_def)

lemma resolveConfig_sourceMaps:
  assumes "resolveConfig fsp cmd required dflt = Inr cfg"
  shows "cfg ''sourceMaps'' = defaults (loadConfig cmd required) dflt ''sourceMaps''"
proof -
  from assms obtain m where m: "mergeConfig fsp cmd (loadConfig cmd required) = Inr m"
    and cfg: "cfg = defaults m dflt" by (rule resolveConfig_Inr)
  from m have "m ''sourceMaps'' = loadConfig cmd required ''sourceMaps''"
    by (simp add: mergeConfig_other mergeFields_frame)
  then show ?thesis by (simp add: cfg defaults_def)
qed

text \<open>
  C2, as amended. A run that reaches the dispatcher builds exactly one request, chosen
  by the flag \<^verbatim>\<open>--source-maps\<close> alone. When the flag is truthy the request is the
  source-map download, with the properties \<open>keys\<close>, \<open>host\<close>, \<open>port\<close>, \<open>protocol\<close>,
  \<open>cafile\<close>, \<open>filesDest\<close>, \<open>filesSrc\<close> and \<open>protectionId\<close> (the flag) and no other: no
  \<open>applicationId\<close>, no \<open>params\<close>, no tuning field, no \<open>sourceMaps\<close>. Otherwise the request
  is protect-and-download; it has no \<open>protectionId\<close>, and its \<open>sourceMaps\<close> property is
  the value the config file or the default object gives \<open>sourceMaps\<close>, \<open>false\<close> when
  neither does: a value that may be truthy, and need not be a boolean.
\<close>

theorem C2_dispatch_exclusive:
  assumes "run fsp glob mapp debug cmd required dflt = Inr c"
  shows "(truthy (sourceMaps cmd) \<longrightarrow>
           (\<exists>r. c = DownloadSourceMaps r \<and>
              map fst r = [''keys'', ''host'', ''port'', ''protocol'', ''cafile'', ''filesDest'',
                           ''filesSrc'', ''protectionId''] \<and>
              map_of r ''protectionId'' = Some (sourceMaps cmd)))
       \<and> (\<not> truthy (sourceMaps cmd) \<longrightarrow>
           (\<exists>r. c = ProtectAndDownload r \<and>
              map_of r ''protectionId'' = None \<and>
              map_of r ''sourceMaps'' =
                Some (if defaults (loadConfig cmd required) dflt ''sourceMaps'' = Undefined
                      then Bool False
                      else defaults (loadConfig cmd required) dflt ''sourceMaps'')))"
proof -
  from assms obtain cfg fs out where cfg: "resolveConfig fsp cmd required dflt = Inr cfg"
    and files: "resolveFiles glob debug cmd cfg = Inr (fs, out)"
    and c: "c = dispatch cmd cfg fs (mapp cmd (cfg ''params''))"
    by (rule run_Inr)
  note sm = resolveConfig_sourceMaps [OF cfg]
  have download: "\<exists>r. c = DownloadSourceMaps r \<and>
      map fst r = [''keys'', ''host'', ''port'', ''protocol'', ''cafile'', ''filesDest'',
                   ''filesSrc'', ''protectionId''] \<and>
      map_of r ''protectionId'' = Some (sourceMaps cmd)"
    if "truthy (sourceMaps cmd)"
    unfolding c dispatch_download [OF that] by simp
  have protect: "\<exists>r. c = ProtectAndDownload r \<and>
      map_of r ''protectionId'' = None \<and>
      map_of r ''sourceMaps'' =
        Some (if defaults (loadConfig cmd required) dflt ''sourceMaps'' = Undefined
              then Bool False
              else defaults (loadConfig cmd required) dflt ''sourceMaps'')"
    if "\<not> truthy (sourceMaps cmd)"
    using dispatch_protect [OF that, of cfg fs "mapp cmd (cfg ''params'')"]
    unfolding c sm by blast
  from download protect show ?thesis by blast
qed

lemmas run_simps = run_def resolveFiles_def globSrc_def dispatch_def request_field_def
  example_params_def

text \<open>\<^verbatim>\<open>--source-maps 5a1b\<close> with two files on the command line, and the same command without
  the flag, over a config file with an application.\<close>

theorem C2_witness:
  "run example_filesizeParser example_glob example_params False
     (no_options\<lparr>config := Str ''jscrambler.json'', sourceMaps := Str ''5a1b'',
        args := [''src/*.js'']\<rparr>)
     (empty_object(''applicationId'' := Str ''app''))
     empty_object
   = Inr (DownloadSourceMaps
       [(''keys'', Obj [(''accessKey'', Undefined), (''secretKey'', Undefined)]),
        (''host'', Undefined), (''port'', Undefined), (''protocol'', Undefined),
        (''cafile'', Undefined), (''filesDest'', Undefined),
        (''filesSrc'', Arr [Str ''src/a.js'', Str ''src/b.js'']),
        (''protectionId'', Str ''5a1b'')]) \<and>
   request_field ''protectionId''
     (run example_filesizeParser example_glob example_params False
        (no_options\<lparr>config := Str ''jscrambler.json'', args := [''src/*.js'']\<rparr>)
        (empty_object(''applicationId'' := Str ''app''))
        empty_object) = None \<and>
   request_field ''sourceMaps''
     (run example_filesizeParser example_glob example_params False
        (no_options\<lparr>config := Str ''jscrambler.json'', args := [''src/*.js'']\<rparr>)
        (empty_object(''applicationId'' := Str ''app''))
        empty_object) = Some (Bool False)"
proof -
  let ?m = "no_options\<lparr>config := Str ''jscrambler.json'', sourceMaps := Str ''5a1b'',
        args := [''src/*.js'']\<rparr>"
  let ?p = "no_options\<lparr>config := Str ''jscrambler.json'', args := [''src/*.js'']\<rparr>"
  let ?req = "empty_object(''applicationId'' := Str ''app'')"
  have ext: "extname ''src/*.js'' = ''.js''"
    by (simp add: extname_def last_component_def)
  have first: "run example_filesizeParser example_glob example_params False ?m ?req empty_object
      = Inr (DownloadSourceMaps
       [(''keys'', Obj [(''accessKey'', Undefined), (''secretKey'', Undefined)]),
        (''host'', Undefined), (''port'', Undefined), (''protocol'', Undefined),
        (''cafile'', Undefined), (''filesDest'', Undefined),
        (''filesSrc'', Arr [Str ''src/a.js'', Str ''src/b.js'']),
        (''protectionId'', Str ''5a1b'')])"
    by (simp add: run_simps eval_simps ext example_glob_def debugLines_def)
  have "\<exists>c. run example_filesizeParser example_glob example_params False ?p ?req empty_object
      = Inr c"
    by (simp add: run_simps eval_simps ext example_glob_def debugLines_def)
  then obtain c where
    c: "run example_filesizeParser example_glob example_params False ?p ?req empty_object = Inr c"
    ..
  from C2_dispatch_exclusive [OF c]
  obtain r where "c = ProtectAndDownload r" and "map_of r ''protectionId'' = None"
    and "map_of r ''sourceMaps'' = Some (Bool False)"
    by (auto simp: no_options_def loadConfig_def defaults_def empty_object_def)
  with c first show ?thesis by (simp add: request_field_def)
qed

text \<open>As stated, C2 has no request with a truthy \<open>sourceMaps\<close> beside the
  protect-and-download properties, and none whose source-map property is truthy and not
  a boolean. A config file with \<^verbatim>\<open>sourceMaps: {sourceContent: true}\<close> and an application,
  run without \<^verbatim>\<open>--source-maps\<close>, builds the protect-and-download request with both.\<close>

theorem C2_counterexample:
  "truthy (Obj [(''sourceContent'', Bool True)]) \<and>
   request_field ''sourceMaps''
     (run example_filesizeParser example_glob example_params False
        (no_options\<lparr>config := Str ''jscrambler.json''\<rparr>)
        (empty_object(''applicationId'' := Str ''app'',
           ''sourceMaps'' := Obj [(''sourceContent'', Bool True)]))
        empty_object) = Some (Obj [(''sourceContent'', Bool True)]) \<and>
   request_field ''applicationId''
     (run example_filesizeParser example_glob example_params False
        (no_options\<lparr>config := Str ''jscrambler.json''\<rparr>)
        (empty_object(''applicationId'' := Str ''app'',
           ''sourceMaps'' := Obj [(''sourceContent'', Bool True)]))
        empty_object) = Some (Str ''app'')"
  by (simp add: run_simps eval_simps)

subsection \<open>Claim C3: the resolved file list\<close>

text \<open>
  C3, as amended. For a non-empty list \<open>ps\<close> of supplied patterns (the arguments of the
  command line, or else the array \<open>filesSrc\<close> of the configuration): whenever resolution
  returns, the resolved \<open>filesSrc\<close> is the concatenation of the matches of each pattern,
  in pattern order, duplicates kept; it does return, with that list, when the list is
  not empty and no check of the loop fires. If the concatenation is empty the run always
  ends fatally, with exit code 1, and the error is the one of the first check that
  fires: with \<open>werror\<close> enabled the loop stops at the first pattern, on the archive error
  when that pattern is an archive among several and else on the error naming the
  pattern; with \<open>werror\<close> disabled the loop stops on the archive error when an archive
  stands among several patterns, and else completes, and the error is
  \<open>No files matched.\<close> So that message is the one printed whenever the loop completes
  with nothing collected, and only then. If no patterns were supplied at all, resolution
  is skipped and \<open>filesSrc\<close> stays \<open>undefined\<close>.
\<close>

theorem C3_filesSrc_concatenation:
  "(globSrc cmd cfg = Arr (map Str ps) \<and> ps \<noteq> [] \<longrightarrow>
      (\<forall>fs out. resolveFiles glob debug cmd cfg = Inr (fs, out) \<longrightarrow>
          fs = Arr (map Str (concat (map glob ps))))
    \<and> (\<not> zip_with_others ps \<and> (truthy (cfg ''werror'') \<longrightarrow> (\<forall>p \<in> set ps. glob p \<noteq> [])) \<and>
        concat (map glob ps) \<noteq> [] \<longrightarrow>
          (\<exists>out. resolveFiles glob debug cmd cfg =
             Inr (Arr (map Str (concat (map glob ps))), out)))
    \<and> (concat (map glob ps) = [] \<longrightarrow>
          (\<exists>e. resolveFiles glob debug cmd cfg = Inl e \<and> exit_code e = 1 \<and>
             e = (if truthy (cfg ''werror'')
                  then (if extname (hd ps) = ''.zip'' \<and> length ps > 1 then ZipWithOthers
                        else PatternNoMatch (hd ps))
                  else (if zip_with_others ps then ZipWithOthers else NoFilesMatched))))
    \<and> (\<forall>out. globLoop glob debug (cfg ''werror'') (length ps) (map Str ps) ([], [])
                = Inr ([], out) \<longrightarrow>
          resolveFiles glob debug cmd cfg = Inl NoFilesMatched)
    \<and> (resolveFiles glob debug cmd cfg = Inl NoFilesMatched \<longrightarrow>
          concat (map glob ps) = [] \<and> \<not> truthy (cfg ''werror'') \<and> \<not> zip_with_others ps))
   \<and> (args cmd = [] \<and> (cfg ''filesSrc'' = Undefined \<or> cfg ''filesSrc'' = Arr []) \<longrightarrow>
        (\<exists>out. resolveFiles glob debug cmd cfg = Inr (Undefined, out)))
   \<and> message NoFilesMatched = ''No files matched.''"
proof -
  let ?loop = "globLoop glob debug (cfg ''werror'') (length ps) (map Str ps) ([], [])"
  let ?all = "concat (map glob ps)"
  let ?error = "if truthy (cfg ''werror'')
      then (if extname (hd ps) = ''.zip'' \<and> length ps > 1 then ZipWithOthers
            else PatternNoMatch (hd ps))
      else (if zip_with_others ps then ZipWithOthers else NoFilesMatched)"
  have supplied: "(\<forall>fs out. resolveFiles glob debug cmd cfg = Inr (fs, out) \<longrightarrow>
          fs = Arr (map Str ?all))
    \<and> (\<not> zip_with_others ps \<and> (truthy (cfg ''werror'') \<longrightarrow> (\<forall>p \<in> set ps. glob p \<noteq> [])) \<and>
        ?all \<noteq> [] \<longrightarrow>
          (\<exists>out. resolveFiles glob debug cmd cfg = Inr (Arr (map Str ?all), out)))
    \<and> (?all = [] \<longrightarrow>
          (\<exists>e. resolveFiles glob debug cmd cfg = Inl e \<and> exit_code e = 1 \<and> e = ?error))
    \<and> (\<forall>out. ?loop = Inr ([], out) \<longrightarrow>
          resolveFiles glob debug cmd cfg = Inl NoFilesMatched)
    \<and> (resolveFiles glob debug cmd cfg = Inl NoFilesMatched \<longrightarrow>
          ?all = [] \<and> \<not> truthy (cfg ''werror'') \<and> \<not> zip_with_others ps)"
    if g: "globSrc cmd cfg = Arr (map Str ps)" and ne: "ps \<noteq> []"
  proof -
    note r = resolveFiles_patterns [OF g ne, of glob debug]
    have returned: "fs = Arr (map Str ?all)"
      if "resolveFiles glob debug cmd cfg = Inr (fs, out)" for fs out
    proof (cases ?loop)
      case (Inl e)
      with that show ?thesis by (simp add: r)
    next
      case (Inr st)
      obtain fs' out' where st: "st = (fs', out')" by (cases st)
      from Inr st globLoop_Inr [of glob debug "cfg ''werror''" "length ps" ps "[]" "[]" fs' out']
      have "fs' = ?all" by simp
      with that Inr st show ?thesis by (simp add: r split: if_splits)
    qed
    have completes: "?loop =
        Inr (?all, concat (map (\<lambda>p. debugLines debug p (glob p)) ps))"
      if "\<not> zip_with_others ps"
        and "truthy (cfg ''werror'') \<longrightarrow> (\<forall>p \<in> set ps. glob p \<noteq> [])"
    proof -
      from that(1) have "length ps > 1 \<longrightarrow> (\<forall>p \<in> set ps. extname p \<noteq> ''.zip'')"
        by (auto simp: zip_with_others_def)
      from globLoop_completes [OF this that(2), of debug "[]" "[]"] show ?thesis by simp
    qed
    have succeeds: "\<exists>out. resolveFiles glob debug cmd cfg = Inr (Arr (map Str ?all), out)"
      if "\<not> zip_with_others ps"
        and "truthy (cfg ''werror'') \<longrightarrow> (\<forall>p \<in> set ps. glob p \<noteq> [])" and "?all \<noteq> []"
      using completes [OF that(1,2)] that(3) by (simp add: r)
    have strict: "resolveFiles glob debug cmd cfg =
        Inl (if extname (hd ps) = ''.zip'' \<and> length ps > 1 then ZipWithOthers
             else PatternNoMatch (hd ps))"
      if "?all = []" and "truthy (cfg ''werror'')"
      using globLoop_first_strict [OF that(2) ne that(1), where debug = debug
          and l = "length ps" and fs = "[]" and out = "[]"]
      by (simp add: r)
    have archive: "resolveFiles glob debug cmd cfg = Inl ZipWithOthers"
      if "\<not> truthy (cfg ''werror'')" and "zip_with_others ps"
    proof -
      from that(2) obtain p where "length ps > 1" "p \<in> set ps" "extname p = ''.zip''"
        by (auto simp: zip_with_others_def)
      from globLoop_zip [OF this, of glob debug "cfg ''werror''" "[]" "[]"] that(1)
      have "?loop = Inl ZipWithOthers" by auto
      then show ?thesis by (simp add: r)
    qed
    have no_match: "resolveFiles glob debug cmd cfg = Inl NoFilesMatched"
      if "?all = []" and "\<not> truthy (cfg ''werror'')" and "\<not> zip_with_others ps"
    proof -
      from that(2) have "truthy (cfg ''werror'') \<longrightarrow> (\<forall>p \<in> set ps. glob p \<noteq> [])" by simp
      from completes [OF that(3) this] that(1) show ?thesis by (simp add: r)
    qed
    have fatal: "resolveFiles glob debug cmd cfg = Inl ?error" if empty: "?all = []"
    proof (cases "truthy (cfg ''werror'')")
      case True
      with strict [OF empty True] show ?thesis by simp
    next
      case lax: False
      show ?thesis
      proof (cases "zip_with_others ps")
        case True
        with archive [OF lax True] lax show ?thesis by simp
      next
        case False
        with no_match [OF empty lax False] lax show ?thesis by simp
      qed
    qed
    have only_then: "?all = [] \<and> \<not> truthy (cfg ''werror'') \<and> \<not> zip_with_others ps"
      if nofiles: "resolveFiles glob debug cmd cfg = Inl NoFilesMatched"
    proof -
      have empty: "?all = []"
      proof (cases ?loop)
        case (Inl e)
        with nofiles have "?loop = Inl NoFilesMatched" by (simp add: r)
        with globLoop_error [of glob debug "cfg ''werror''" "length ps" "map Str ps" "([], [])"]
        show ?thesis by simp
      next
        case (Inr st)
        obtain fs' out' where st: "st = (fs', out')" by (cases st)
        from Inr st
          globLoop_Inr [of glob debug "cfg ''werror''" "length ps" ps "[]" "[]" fs' out']
        have "fs' = ?all" by simp
        with nofiles Inr st show ?thesis by (simp add: r split: if_splits)
      qed
      from fatal [OF empty] nofiles have "?error = NoFilesMatched" by simp
      then have "\<not> truthy (cfg ''werror'') \<and> \<not> zip_with_others ps"
        by (simp split: if_splits)
      with empty show ?thesis by simp
    qed
    show ?thesis
    proof (intro conjI allI impI)
      fix fs out
      assume "resolveFiles glob debug cmd cfg = Inr (fs, out)"
      then show "fs = Arr (map Str ?all)" by (rule returned)
    next
      assume "\<not> zip_with_others ps \<and>
        (truthy (cfg ''werror'') \<longrightarrow> (\<forall>p \<in> set ps. glob p \<noteq> [])) \<and> ?all \<noteq> []"
      then show "\<exists>out. resolveFiles glob debug cmd cfg = Inr (Arr (map Str ?all), out)"
        using succeeds by blast
    next
      assume "?all = []"
      then have "resolveFiles glob debug cmd cfg = Inl ?error" by (rule fatal)
      then show "\<exists>e. resolveFiles glob debug cmd cfg = Inl e \<and> exit_code e = 1 \<and> e = ?error"
        by (simp only: exit_code_1 simp_thms sum.inject ex_simps)
    next
      fix out
      assume "?loop = Inr ([], out)"
      then show "resolveFiles glob debug cmd cfg = Inl NoFilesMatched"
        by (simp add: r)
    next
      assume "resolveFiles glob debug cmd cfg = Inl NoFilesMatched"
      then show "?all = []" "\<not> truthy (cfg ''werror'')" "\<not> zip_with_others ps"
        using only_then by simp_all
    qed
  qed
  have skipped: "\<exists>out. resolveFiles glob debug cmd cfg = Inr (Undefined, out)"
    if "args cmd = []" and "cfg ''filesSrc'' = Undefined \<or> cfg ''filesSrc'' = Arr []"
    using that by (auto simp: resolveFiles_def globSrc_def and_js_def)
  have "message NoFilesMatched = ''No files matched.''" by simp
  with supplied skipped show ?thesis by blast
qed

text \<open>The patterns \<^verbatim>\<open>src/*.js\<close> and \<^verbatim>\<open>src/a.js\<close> on the command line: \<^verbatim>\<open>src/a.js\<close> is listed
  twice. The pattern \<^verbatim>\<open>lib/*.js\<close> alone, \<open>werror\<close> disabled: no files matched. No pattern
  at all: \<open>filesSrc\<close> stays unset.\<close>

theorem C3_witness:
  "resolveFiles example_glob False (no_options\<lparr>args := [''src/*.js'', ''src/a.js'']\<rparr>)
     (empty_object(''werror'' := Bool True))
     = Inr (Arr [Str ''src/a.js'', Str ''src/b.js'', Str ''src/a.js''], []) \<and>
   resolveFiles example_glob False (no_options\<lparr>args := [''lib/*.js'']\<rparr>)
     (empty_object(''werror'' := Bool False)) = Inl NoFilesMatched \<and>
   resolveFiles example_glob False no_options empty_object = Inr (Undefined, [])"
proof -
  let ?two = "no_options\<lparr>args := [''src/*.js'', ''src/a.js'']\<rparr>"
  let ?lib = "no_options\<lparr>args := [''lib/*.js'']\<rparr>"
  let ?strict = "empty_object(''werror'' := Bool True)"
  let ?lax = "empty_object(''werror'' := Bool False)"
  have ext: "extname ''src/*.js'' = ''.js''" "extname ''src/a.js'' = ''.js''"
    "extname ''lib/*.js'' = ''.js''"
    by (simp_all add: extname_def last_component_def)
  have "\<exists>out. resolveFiles example_glob False ?two ?strict =
      Inr (Arr (map Str (concat (map example_glob [''src/*.js'', ''src/a.js'']))), out)"
    using C3_filesSrc_concatenation [where cmd = ?two and cfg = ?strict
        and ps = "[''src/*.js'', ''src/a.js'']" and glob = example_glob and debug = False]
    by (simp add: globSrc_def no_options_def zip_with_others_def ext example_glob_def)
  then obtain out where out: "resolveFiles example_glob False ?two ?strict =
      Inr (Arr (map Str (concat (map example_glob [''src/*.js'', ''src/a.js'']))), out)" ..
  have "snd (projr (resolveFiles example_glob False ?two ?strict)) = []"
    by (simp add: resolveFiles_def globSrc_def no_options_def and_js_def ext example_glob_def
        debugLines_def)
  with out have first: "resolveFiles example_glob False ?two ?strict =
      Inr (Arr [Str ''src/a.js'', Str ''src/b.js'', Str ''src/a.js''], [])"
    by (simp add: example_glob_def)
  have second: "resolveFiles example_glob False ?lib ?lax = Inl NoFilesMatched"
    using C3_filesSrc_concatenation [where cmd = ?lib and cfg = ?lax
        and ps = "[''lib/*.js'']" and glob = example_glob and debug = False]
    by (simp add: globSrc_def no_options_def zip_with_others_def example_glob_def)
  have third: "resolveFiles example_glob False no_options empty_object = Inr (Undefined, [])"
    by (simp add: resolveFiles_def globSrc_def no_options_def empty_object_def and_js_def)
  from first second third show ?thesis by blast
qed

text \<open>As stated, C3 has every empty concatenation end on the message \<open>No files matched.\<close>
  Nothing matches \<^verbatim>\<open>lib/*.js\<close>. With \<open>werror\<close> enabled the run ends in the loop, on the
  message that names the pattern; with \<^verbatim>\<open>old.zip\<close> beside it and \<open>werror\<close> disabled it ends
  on the archive message.\<close>

theorem C3_counterexample:
  "concat (map example_glob [''lib/*.js'']) = [] \<and>
   resolveFiles example_glob False (no_options\<lparr>args := [''lib/*.js'']\<rparr>)
     (empty_object(''werror'' := Bool True)) = Inl (PatternNoMatch ''lib/*.js'') \<and>
   message (PatternNoMatch ''lib/*.js'') \<noteq> message NoFilesMatched \<and>
   concat (map example_glob [''old.zip'', ''lib/*.js'']) = [] \<and>
   resolveFiles example_glob False (no_options\<lparr>args := [''old.zip'', ''lib/*.js'']\<rparr>)
     (empty_object(''werror'' := Bool False)) = Inl ZipWithOthers \<and>
   message ZipWithOthers \<noteq> message NoFilesMatched"
proof -
  have ext: "extname ''lib/*.js'' = ''.js''" "extname ''old.zip'' = ''.zip''"
    by (simp_all add: extname_def last_component_def)
  show ?thesis
    by (simp add: resolveFiles_def globSrc_def no_options_def and_js_def ext example_glob_def
        quoted_def)
qed

subsection \<open>Claim C4: a pattern that matches nothing\<close>



subsection \<open>Claim C5: an archive beside other patterns\<close>

text \<open>
  C5. For every supplied list of more than one pattern in which some pattern has the
  extension \<^verbatim>\<open>.zip\<close>, resolution ends fatally with exit code 1, whatever \<open>werror\<close> is: with
  the archive message, unless \<open>werror\<close> is enabled and a pattern before the archive
  matched nothing, which ends the run first.
\<close>

theorem C5_zip_exclusive:
  assumes "globSrc cmd cfg = Arr (map Str ps)" and "length ps > 1"
    and "p \<in> set ps" and "extname p = ''.zip''"
  shows "\<exists>e. resolveFiles glob debug cmd cfg = Inl e \<and> exit_code e = 1 \<and>
     (e = ZipWithOthers \<or>
      (truthy (cfg ''werror'') \<and> (\<exists>q \<in> set ps. e = PatternNoMatch q \<and> glob q = [])))"
proof -
  from assms(2) have ne: "ps \<noteq> []" by auto
  from globLoop_zip [OF assms(2,3,4), of glob debug "cfg ''werror''" "[]" "[]"]
  obtain e where e: "globLoop glob debug (cfg ''werror'') (length ps) (map Str ps) ([], [])
        = Inl e"
    and kind: "e = ZipWithOthers \<or>
      (truthy (cfg ''werror'') \<and> (\<exists>q \<in> set ps. e = PatternNoMatch q \<and> glob q = []))"
    by blast
  from e have "resolveFiles glob debug cmd cfg = Inl e"
    by (simp add: resolveFiles_patterns [OF assms(1) ne])
  with kind show ?thesis by (simp add: exit_code_1)
qed

text \<open>The example of the specification, \<^verbatim>\<open>bundle.zip\<close> with \<^verbatim>\<open>src/*.js\<close>, with and without
  \<open>werror\<close>.\<close>

theorem C5_witness:
  "resolveFiles example_glob False (no_options\<lparr>args := [''bundle.zip'', ''src/*.js'']\<rparr>)
     (empty_object(''werror'' := Bool True)) = Inl ZipWithOthers \<and>
   resolveFiles example_glob False (no_options\<lparr>args := [''bundle.zip'', ''src/*.js'']\<rparr>)
     (empty_object(''werror'' := Bool False)) = Inl ZipWithOthers"
proof -
  let ?cmd = "no_options\<lparr>args := [''bundle.zip'', ''src/*.js'']\<rparr>"
  have src: "globSrc ?cmd cfg = Arr (map Str [''bundle.zip'', ''src/*.js''])" for cfg
    by (simp add: globSrc_def no_options_def)
  have len: "length [''bundle.zip'', ''src/*.js''] > 1" by simp
  have mem: "''bundle.zip'' \<in> set [''bundle.zip'', ''src/*.js'']" by simp
  have ext: "extname ''bundle.zip'' = ''.zip''"
    by (simp add: extname_def last_component_def)
  note c5 = C5_zip_exclusive [OF src len mem ext, where glob = example_glob and debug = False]
  have "resolveFiles example_glob False ?cmd (empty_object(''werror'' := Bool True)) =
      Inl ZipWithOthers"
    using c5 [of "empty_object(''werror'' := Bool True)"]
    by (auto simp: example_glob_def)
  moreover have "resolveFiles example_glob False ?cmd (empty_object(''werror'' := Bool False)) =
      Inl ZipWithOthers"
    using c5 [of "empty_object(''werror'' := Bool False)"]
    by (auto simp: example_glob_def)
  ultimately show ?thesis by blast
qed

subsection \<open>Claim C6: the boolean flags\<close>

text \<open>
  C6. For each of \<open>useRecommendedOrder\<close>, \<open>tolerateMinification\<close>, \<open>werror\<close> and
  \<open>useProfilingData\<close>: when the flag was supplied, so that \<^verbatim>\<open>commander\<close> holds the string
  \<open>validateBool\<close> returned, the merged value is true exactly when that string is not
  \<open>false\<close>, and the default layer leaves it alone; when the flag is absent the merged
  value is the config file's, and the default applies only if that is \<open>undefined\<close>.
\<close>

theorem C6_boolean_flags:
  assumes "mergeConfig fsp cmd c0 = Inr m" and "f \<in> set bool_fields"
  shows "(validateBool name raw = Inr s \<and> bool_flag cmd f = Str s \<longrightarrow>
            m f = Bool (s \<noteq> ''false'') \<and> defaults m dflt f = Bool (s \<noteq> ''false''))
       \<and> (bool_flag cmd f = Undefined \<longrightarrow>
            m f = c0 f \<and> defaults m dflt f = (if c0 f = Undefined then dflt f else c0 f))"
proof -
  note mf = mergeConfig_bool [OF assms]
  have "m f = Bool (s \<noteq> ''false'') \<and> defaults m dflt f = Bool (s \<noteq> ''false'')"
    if "validateBool name raw = Inr s" and "bool_flag cmd f = Str s"
  proof -
    from that(1) have "s = ''true'' \<or> s = ''false''" by (simp add: validateBool_Inr)
    then have "truthy (Str s)" by auto
    with that(2) show ?thesis by (simp add: mf defaults_def)
  qed
  moreover have "m f = c0 f \<and> defaults m dflt f = (if c0 f = Undefined then dflt f else c0 f)"
    if "bool_flag cmd f = Undefined"
    using that by (simp add: mf defaults_def)
  ultimately show ?thesis by blast
qed

theorem C6_witness:
  "''werror'' \<in> set bool_fields \<and> validateBool ''werror'' ''FALSE'' = Inr ''false'' \<and>
   property ''werror''
     (mergeConfig example_filesizeParser (no_options\<lparr>werror := Str ''false''\<rparr>)
        (empty_object(''werror'' := Bool True))) = Inr (Bool False) \<and>
   property ''werror''
     (mergeConfig example_filesizeParser no_options (empty_object(''werror'' := Bool True)))
     = Inr (Bool True)"
proof -
  let ?c0 = "empty_object(''werror'' := Bool True)"
  let ?cmd = "no_options\<lparr>werror := Str ''false''\<rparr>"
  have w: "''werror'' \<in> set bool_fields" by (simp add: bool_fields_def)
  have v: "validateBool ''werror'' ''FALSE'' = Inr ''false''"
    by (simp add: validateBool_def to_lower_def)
  obtain m1 where m1: "mergeConfig example_filesizeParser ?cmd ?c0 = Inr m1"
    by (simp add: eval_simps)
  obtain m2 where m2: "mergeConfig example_filesizeParser no_options ?c0 = Inr m2"
    by (simp add: eval_simps)
  from C6_boolean_flags [OF m1 w, of "''werror''" "''FALSE''" "''false''"] v
  have "m1 ''werror'' = Bool False" by (simp add: bool_flag_def no_options_def)
  moreover from C6_boolean_flags [OF m2 w]
  have "m2 ''werror'' = Bool True" by (simp add: bool_flag_def no_options_def empty_object_def)
  ultimately show ?thesis using w v m1 m2 by (simp add: property_def)
qed

subsection \<open>Claim C7: the code hardening threshold\<close>

text \<open>
  C7, as amended. Whenever the version check of line 127 passes: a flag value of the
  number 0 resolves to 0, after the merge and after the default layer; when the flag was
  never supplied and the config-file value is truthy, the merged value is the validated
  parse of that value (or the validator's fatal exit); when the flag was never supplied
  and the config file has no value, the merged value is \<open>undefined\<close>. Nothing is said of
  a config-file value that is present and falsy.
\<close>

theorem C7_threshold:
  assumes "\<not> (truthy (or_js (jscramblerVersion cmd) (loadConfig cmd required ''jscramblerVersion''))
     \<and> \<not> version_test (or_js (jscramblerVersion cmd) (loadConfig cmd required ''jscramblerVersion'')))"
  shows "(codeHardeningThreshold cmd = Num 0 \<longrightarrow>
       property ''codeHardeningThreshold'' (mergeConfig fsp cmd (loadConfig cmd required))
         = Inr (Num 0) \<and>
       property ''codeHardeningThreshold'' (resolveConfig fsp cmd required dflt) = Inr (Num 0))
    \<and> (codeHardeningThreshold cmd = Undefined \<and>
        truthy (loadConfig cmd required ''codeHardeningThreshold'') \<longrightarrow>
       property ''codeHardeningThreshold'' (mergeConfig fsp cmd (loadConfig cmd required))
         = validateCodeHardeningThreshold fsp (loadConfig cmd required ''codeHardeningThreshold''))
    \<and> (codeHardeningThreshold cmd = Undefined \<and>
        loadConfig cmd required ''codeHardeningThreshold'' = Undefined \<longrightarrow>
       property ''codeHardeningThreshold'' (mergeConfig fsp cmd (loadConfig cmd required))
         = Inr Undefined)"
proof -
  let ?c0 = "loadConfig cmd required"
  have p: "property ''codeHardeningThreshold'' (mergeConfig fsp cmd ?c0) =
      mergeCodeHardeningThreshold fsp cmd (mergeFields cmd ?c0)"
    using assms by (cases "mergeCodeHardeningThreshold fsp cmd (mergeFields cmd ?c0)")
      (simp_all add: property_threshold)
  show ?thesis
    by (simp add: p property_resolveConfig threshold_reads_config)
qed

text \<open>\<^verbatim>\<open>--code-hardening-threshold 0\<close> with no config file; no flag and
  \<^verbatim>\<open>codeHardeningThreshold: '200kb'\<close> in the config file; neither.\<close>

theorem C7_witness:
  "property ''codeHardeningThreshold''
     (resolveConfig example_filesizeParser (no_options\<lparr>codeHardeningThreshold := Num 0\<rparr>)
        empty_object empty_object) = Inr (Num 0) \<and>
   property ''codeHardeningThreshold''
     (mergeConfig example_filesizeParser (no_options\<lparr>config := Str ''jscrambler.json''\<rparr>)
        (loadConfig (no_options\<lparr>config := Str ''jscrambler.json''\<rparr>)
           (empty_object(''codeHardeningThreshold'' := Str ''200kb''))))
     = Inr (Num 204800) \<and>
   property ''codeHardeningThreshold''
     (mergeConfig example_filesizeParser no_options (loadConfig no_options empty_object))
     = Inr Undefined"
proof -
  let ?flag = "no_options\<lparr>codeHardeningThreshold := Num 0\<rparr>"
  let ?file = "no_options\<lparr>config := Str ''jscrambler.json''\<rparr>"
  let ?req = "empty_object(''codeHardeningThreshold'' := Str ''200kb'')"
  have "property ''codeHardeningThreshold''
      (resolveConfig example_filesizeParser ?flag empty_object empty_object) = Inr (Num 0)"
    using C7_threshold [where cmd = ?flag and required = empty_object
        and fsp = example_filesizeParser and dflt = empty_object]
    by (simp add: loadConfig_def no_options_def empty_object_def or_js_def)
  moreover have "property ''codeHardeningThreshold''
      (mergeConfig example_filesizeParser ?file (loadConfig ?file ?req)) = Inr (Num 204800)"
    using C7_threshold [where cmd = ?file and required = ?req
        and fsp = example_filesizeParser and dflt = empty_object]
    by (simp add: loadConfig_def no_options_def empty_object_def or_js_def
        validateCodeHardeningThreshold_def example_filesizeParser_def)
  moreover have "property ''codeHardeningThreshold''
      (mergeConfig example_filesizeParser no_options (loadConfig no_options empty_object))
      = Inr Undefined"
    using C7_threshold [where cmd = no_options and required = empty_object
        and fsp = example_filesizeParser and dflt = empty_object]
    by (simp add: loadConfig_def no_options_def empty_object_def or_js_def)
  ultimately show ?thesis by blast
qed

text \<open>As stated, C7 promises the validated parse of the config-file value whenever one is
  present. With \<^verbatim>\<open>codeHardeningThreshold: 0\<close> in the config file and no flag, the value is
  present, its validated parse is 0, and the resolved value is \<open>undefined\<close>.\<close>

theorem C7_counterexample:
  "loadConfig (no_options\<lparr>config := Str ''jscrambler.json''\<rparr>)
      (empty_object(''codeHardeningThreshold'' := Num 0)) ''codeHardeningThreshold'' = Num 0 \<and>
   validateCodeHardeningThreshold example_filesizeParser (Num 0) = Inr (Num 0) \<and>
   property ''codeHardeningThreshold''
     (resolveConfig example_filesizeParser (no_options\<lparr>config := Str ''jscrambler.json''\<rparr>)
        (empty_object(''codeHardeningThreshold'' := Num 0)) empty_object)
     = Inr Undefined"
  by (simp add: eval_simps)

subsection \<open>Claim C8: the version check\<close>




subsection \<open>Claim C9: the port\<close>

text \<open>
  C9, as amended. Let \<open>P\<close> be \<^verbatim>\<open>commander.port || config.port\<close>. After the merge of lines
  95 and 96 the port is \<^verbatim>\<open>P && parseInt(P)\<close>. When it is truthy it is the number that
  \<^verbatim>\<open>parseInt\<close> returned for a truthy \<open>P\<close>: an integer other than zero, or an infinity; hence
  never a string and never the parse of the empty string. A falsy \<open>P\<close> (the empty string
  among them) is kept as it is and not parsed. For a \<open>P\<close> that is a non-empty string of
  decimal digits the port is the Number value of the numeral: the numeral itself below
  \<open>2 ^ 53\<close>, and \<open>Infinity\<close> from \<open>2 ^ 1024\<close> on. The default layer of line 134 leaves a
  merged port that is not \<open>undefined\<close>, and puts in place of an \<open>undefined\<close> one the value
  of the default object as it is, unparsed.
\<close>

theorem C9_port_integer:
  fixes cmd :: commander and c0 :: object
  defines "P \<equiv> or_js (port cmd) (c0 ''port'')"
  assumes "mergeConfig fsp cmd c0 = Inr m"
  shows "m ''port'' = and_js P (parseInt P)
       \<and> (truthy (m ''port'') \<longrightarrow>
            ((\<exists>i. i \<noteq> 0 \<and> m ''port'' = Num i) \<or> m ''port'' = Infinity \<or>
             m ''port'' = NegInfinity) \<and>
            (\<forall>s. m ''port'' \<noteq> Str s) \<and> truthy P \<and> P \<noteq> Str [] \<and> m ''port'' = parseInt P)
       \<and> (\<not> truthy P \<longrightarrow> m ''port'' = P)
       \<and> (\<forall>ds. P = Str ds \<and> ds \<noteq> [] \<and> list_all is_digit ds \<longrightarrow>
            m ''port'' = number False (digits_value 10 ds))
       \<and> (\<forall>ds. P = Str ds \<and> ds \<noteq> [] \<and> list_all is_digit ds \<and> digits_value 10 ds < 2 ^ 53 \<longrightarrow>
            m ''port'' = Num (int (digits_value 10 ds)))
       \<and> (\<forall>ds. P = Str ds \<and> ds \<noteq> [] \<and> list_all is_digit ds \<and> 2 ^ 1024 \<le> digits_value 10 ds \<longrightarrow>
            m ''port'' = Infinity)
       \<and> defaults m dflt ''port'' = (if m ''port'' = Undefined then dflt ''port'' else m ''port'')"
proof -
  have mp: "m ''port'' = and_js P (parseInt P)"
    using assms(2) by (simp add: mergeConfig_other mergeFields_apply P_def)
  have num: "((\<exists>i. i \<noteq> 0 \<and> m ''port'' = Num i) \<or> m ''port'' = Infinity \<or>
       m ''port'' = NegInfinity) \<and>
      (\<forall>s. m ''port'' \<noteq> Str s) \<and> truthy P \<and> P \<noteq> Str [] \<and> m ''port'' = parseInt P"
    if present: "truthy (m ''port'')"
  proof -
    from present have tp: "truthy P" by (auto simp: mp and_js_def split: if_splits)
    then have eq: "m ''port'' = parseInt P" by (simp add: mp and_js_def)
    from parseInt_cases [of P] present
    have kind: "(\<exists>i. i \<noteq> 0 \<and> m ''port'' = Num i) \<or> m ''port'' = Infinity \<or>
        m ''port'' = NegInfinity"
      unfolding eq by auto
    have "\<forall>s. m ''port'' \<noteq> Str s" unfolding eq by (simp add: parseInt_not_Str)
    moreover from tp have "P \<noteq> Str []" by auto
    ultimately show ?thesis using kind tp eq by blast
  qed
  have keep: "m ''port'' = P" if "\<not> truthy P"
    using that by (simp add: mp and_js_def)
  have digits: "m ''port'' = number False (digits_value 10 ds)"
    if "P = Str ds" and "ds \<noteq> []" and "list_all is_digit ds" for ds
    using that by (simp add: mp and_js_def parseInt_digits)
  have small: "m ''port'' = Num (int (digits_value 10 ds))"
    if "P = Str ds" and "ds \<noteq> []" and "list_all is_digit ds"
      and "digits_value 10 ds < 2 ^ 53" for ds
    using digits [OF that(1,2,3)] that(4) by (simp add: number_def round_double_exact)
  have large: "m ''port'' = Infinity"
    if "P = Str ds" and "ds \<noteq> []" and "list_all is_digit ds"
      and "2 ^ 1024 \<le> digits_value 10 ds" for ds
    using digits [OF that(1,2,3)] that(4) by (simp add: number_def round_double_overflow)
  have dfl: "defaults m dflt ''port'' =
      (if m ''port'' = Undefined then dflt ''port'' else m ''port'')"
    by (simp add: defaults_def)
  show ?thesis
  proof (intro conjI allI impI)
    show "m ''port'' = and_js P (parseInt P)" by (rule mp)
  next
    assume "truthy (m ''port'')"
    from num [OF this]
    show "(\<exists>i. i \<noteq> 0 \<and> m ''port'' = Num i) \<or> m ''port'' = Infinity \<or>
        m ''port'' = NegInfinity"
      and "truthy P" and "P \<noteq> Str []" and "m ''port'' = parseInt P"
      by blast+
  next
    fix s
    assume "truthy (m ''port'')"
    from num [OF this] show "m ''port'' \<noteq> Str s" by blast
  next
    assume "\<not> truthy P"
    then show "m ''port'' = P" by (rule keep)
  next
    fix ds
    assume "P = Str ds \<and> ds \<noteq> [] \<and> list_all is_digit ds"
    then show "m ''port'' = number False (digits_value 10 ds)" using digits by simp
  next
    fix ds
    assume "P = Str ds \<and> ds \<noteq> [] \<and> list_all is_digit ds \<and> digits_value 10 ds < 2 ^ 53"
    then show "m ''port'' = Num (int (digits_value 10 ds))" using small by simp
  next
    fix ds
    assume "P = Str ds \<and> ds \<noteq> [] \<and> list_all is_digit ds \<and> 2 ^ 1024 \<le> digits_value 10 ds"
    then show "m ''port'' = Infinity" using large by simp
  next
    show "defaults m dflt ''port'' =
        (if m ''port'' = Undefined then dflt ''port'' else m ''port'')"
      by (rule dfl)
  qed
qed

text \<open>\<^verbatim>\<open>--port 8080\<close> gives the number 8080; a config file with \<^verbatim>\<open>port: ''\<close> keeps the empty
  string.\<close>

theorem C9_witness:
  "property ''port''
     (mergeConfig example_filesizeParser (no_options\<lparr>port := Str ''8080''\<rparr>) empty_object)
     = Inr (Num 8080) \<and>
   property ''port''
     (mergeConfig example_filesizeParser no_options (empty_object(''port'' := Str [])))
     = Inr (Str [])"
proof -
  let ?flag = "no_options\<lparr>port := Str ''8080''\<rparr>"
  let ?c0 = "empty_object(''port'' := Str [])"
  obtain m1 where m1: "mergeConfig example_filesizeParser ?flag empty_object = Inr m1"
    by (simp add: eval_simps)
  obtain m2 where m2: "mergeConfig example_filesizeParser no_options ?c0 = Inr m2"
    by (simp add: eval_simps)
  have port: "digits_value 10 ''8080'' = 8080"
    by (simp add: digits_value_def digit_value_def)
  from C9_port_integer [OF m1, THEN conjunct2, THEN conjunct2, THEN conjunct2,
      THEN conjunct2, THEN conjunct1, THEN spec, of "''8080''"]
  have "m1 ''port'' = Num 8080"
    by (simp add: no_options_def or_js_def is_digit_def port)
  moreover from C9_port_integer [OF m2, THEN conjunct2, THEN conjunct2, THEN conjunct1]
  have "m2 ''port'' = Str []"
    by (simp add: no_options_def or_js_def)
  ultimately show ?thesis using m1 m2 by (simp add: property_def)
qed

text \<open>As stated, C9 has every truthy resolved port an integer. A \<^verbatim>\<open>--port\<close> of 310 digits
  is parsed to \<open>Infinity\<close>, which is truthy and no integer. With no flag, no config file
  and \<^verbatim>\<open>port: '443'\<close> in the default object, the resolved port is that string, which no
  line parses.\<close>

theorem C9_counterexample:
  "property ''port''
     (mergeConfig example_filesizeParser (no_options\<lparr>port := Str example_long_port\<rparr>)
        empty_object)
     = Inr Infinity \<and>
   truthy Infinity \<and>
   property ''port''
     (resolveConfig example_filesizeParser no_options empty_object
        (empty_object(''port'' := Str ''443'')))
     = Inr (Str ''443'')"
proof -
  have big: "(2::nat) ^ 1024 \<le> 10 ^ 309" by simp
  have infinite: "number False (10 ^ 309) = Infinity"
    by (simp only: number_def round_double_overflow [OF big] option.case if_False)
  have digits: "example_long_port \<noteq> []" "list_all is_digit example_long_port"
    by (simp_all add: example_long_port_def list_all_iff is_digit_def)
  have numeral: "digits_value 10 example_long_port = 10 ^ 309"
    unfolding example_long_port_def by (rule digits_value_power)
  have long: "parseInt (Str example_long_port) = Infinity"
    unfolding parseInt_digits [OF digits] numeral by (rule infinite)
  have "truthy (Str example_long_port)" by (simp add: example_long_port_def)
  with long have first: "property ''port''
     (mergeConfig example_filesizeParser (no_options\<lparr>port := Str example_long_port\<rparr>)
        empty_object) = Inr Infinity"
    by (simp add: eval_simps)
  have second: "property ''port''
     (resolveConfig example_filesizeParser no_options empty_object
        (empty_object(''port'' := Str ''443''))) = Inr (Str ''443'')"
    by (simp add: eval_simps)
  from first second show ?thesis by simp
qed

subsection \<open>Claim C10: a falsy threshold in the config file\<close>



end
